theory Spec2Isabelle
  imports Main "HOL-Library.Finite_Map"
begin

section \<open>JavaScript values\<close>

text \<open>
  The configuration of \<^verbatim>\<open>public/about-blank.js\<close> is an ordinary JavaScript object that
  is never validated, so its leaves are modelled as dynamic values: \<^verbatim>\<open>undefined\<close>,
  \<^verbatim>\<open>null\<close>, booleans, strings, arrays and plain objects (the kinds of value the
  configuration schema uses; numbers, functions and symbols are not modelled). An object is
  a finite map from property names to values: the program never enumerates properties, so
  their order is not observable.
\<close>

datatype jsval =
    Undefined
  | Null
  | Bool bool
  | Str string
  | Arr "jsval list"
  | Obj "(string, jsval) fmap"

type_synonym obj = "(string, jsval) fmap"

datatype exn = TypeError | Thrown string

text \<open>ToBoolean, as used by \<^verbatim>\<open>!\<close>, \<^verbatim>\<open>&&\<close>, \<^verbatim>\<open>||\<close> and \<^verbatim>\<open>if\<close>.\<close>

fun truthy :: "jsval \<Rightarrow> bool" where
  "truthy Undefined = False"
| "truthy Null = False"
| "truthy (Bool b) = b"
| "truthy (Str s) = (s \<noteq> [])"
| "truthy (Arr xs) = True"
| "truthy (Obj m) = True"

definition js_or :: "jsval \<Rightarrow> jsval \<Rightarrow> jsval" where
  "js_or a b = (if truthy a then a else b)"

definition js_and :: "jsval \<Rightarrow> jsval \<Rightarrow> jsval" where
  "js_and a b = (if truthy a then b else a)"

fun nullish :: "jsval \<Rightarrow> bool" where
  "nullish Undefined = True"
| "nullish Null = True"
| "nullish _ = False"

text \<open>The canonical decimal name of an array index.\<close>

fun decimal :: "nat \<Rightarrow> string" where
  "decimal n =
     (if n < 10 then [''0123456789'' ! n]
      else decimal (n div 10) @ [''0123456789'' ! (n mod 10)])"

declare decimal.simps [simp del]

text \<open>
  The own enumerable properties of a value, as \<^verbatim>\<open>Object.assign\<close> reads them from a source:
  an object's properties, the indexed elements of an array, the indexed characters of a
  string, and nothing for \<^verbatim>\<open>undefined\<close>, \<^verbatim>\<open>null\<close> and booleans.
\<close>

fun own_props :: "jsval \<Rightarrow> obj" where
  "own_props (Obj m) = m"
| "own_props (Arr xs) = fmap_of_list (zip (map decimal [0..<length xs]) xs)"
| "own_props (Str s) = fmap_of_list (zip (map decimal [0..<length s]) (map (\<lambda>c. Str [c]) s))"
| "own_props Undefined = fmempty"
| "own_props Null = fmempty"
| "own_props (Bool b) = fmempty"

text \<open>
  Reading a property \<^verbatim>\<open>v.k\<close>. On \<^verbatim>\<open>undefined\<close> and \<^verbatim>\<open>null\<close> the read throws a
  TypeError; elsewhere a missing property reads as \<^verbatim>\<open>undefined\<close>. Only own enumerable
  properties are modelled: the configuration names the program reads this way are never
  inherited ones (the \<^verbatim>\<open>length\<close> of the redirect list is read separately below).
\<close>

definition member_of :: "jsval \<Rightarrow> string \<Rightarrow> jsval" where
  "member_of v k = (case fmlookup (own_props v) k of None \<Rightarrow> Undefined | Some x \<Rightarrow> x)"

definition get :: "jsval \<Rightarrow> string \<Rightarrow> exn + jsval" where
  "get v k = (if nullish v then Inl TypeError else Inr (member_of v k))"

text \<open>\<^verbatim>\<open>Object.assign(target, ...sources)\<close>: later sources win, key by key.\<close>

definition object_assign :: "obj \<Rightarrow> jsval list \<Rightarrow> obj" where
  "object_assign target sources = foldl (\<lambda>t s. t ++\<^sub>f own_props s) target sources"

text \<open>ToString, as applied by template literals and by DOM string attributes.\<close>

fun join_comma :: "string list \<Rightarrow> string" where
  "join_comma [] = []"
| "join_comma [s] = s"
| "join_comma (s # t # ts) = s @ '','' @ join_comma (t # ts)"

fun to_string :: "jsval \<Rightarrow> string" where
  "to_string Undefined = ''undefined''"
| "to_string Null = ''null''"
| "to_string (Bool b) = (if b then ''true'' else ''false'')"
| "to_string (Str s) = s"
| "to_string (Arr xs) =
     join_comma (map (\<lambda>x. case x of Undefined \<Rightarrow> [] | Null \<Rightarrow> [] | _ \<Rightarrow> to_string x) xs)"
| "to_string (Obj m) = ''[object Object]''"

section \<open>Configuration\<close>

text \<open>\<^verbatim>\<open>defaultConfig\<close>, lines 13 to 45.\<close>

definition defaultConfig :: obj where
  "defaultConfig = fmap_of_list
     [(''enabled'', Bool True),
      (''skipFirefox'', Bool True),
      (''skipIframes'', Bool True),
      (''disguise'', Obj (fmap_of_list
         [(''title'', Str ''My Drive - Google Drive''),
          (''favicon'', Str ''https://ssl.gstatic.com/docs/doclist/images/drive_2022q3_32dp.png'')])),
      (''redirect'', Obj (fmap_of_list
         [(''enabled'', Bool True),
          (''urls'', Arr
             [Str ''https://classroom.google.com'',
              Str ''https://drive.google.com'',
              Str ''https://google.com'',
              Str ''https://docs.google.com'',
              Str ''https://slides.google.com'',
              Str ''https://kahoot.it'',
              Str ''https://clever.com'',
              Str ''https://khanacademy.org'',
              Str ''https://wikipedia.org''])])),
      (''protection'', Obj (fmap_of_list
         [(''exitConfirmation'', Bool True),
          (''confirmationMessage'', Str ''Leave Site?'')]))]"

text \<open>
  Lines 48 to 51, with the defaults and \<^verbatim>\<open>window.aboutBlankConfig\<close> as arguments: a
  top-level \<^verbatim>\<open>Object.assign\<close>, then each of the three groups rebuilt from the default
  group and the caller's group.
\<close>

definition mergeGroup :: "obj \<Rightarrow> jsval \<Rightarrow> string \<Rightarrow> jsval" where
  "mergeGroup defaults user g =
     Obj (object_assign fmempty
       [member_of (Obj defaults) g, js_or (js_and user (member_of user g)) (Obj fmempty)])"

definition mergeConfig :: "obj \<Rightarrow> jsval \<Rightarrow> obj" where
  "mergeConfig defaults user =
     (let c0 = object_assign fmempty [Obj defaults, js_or user (Obj fmempty)];
          c1 = fmupd ''disguise'' (mergeGroup defaults user ''disguise'') c0;
          c2 = fmupd ''redirect'' (mergeGroup defaults user ''redirect'') c1;
          c3 = fmupd ''protection'' (mergeGroup defaults user ''protection'') c2
      in c3)"

definition config :: "jsval \<Rightarrow> obj" where
  "config aboutBlankConfig = mergeConfig defaultConfig aboutBlankConfig"

text \<open>The public mutators, lines 220 to 230; the live configuration is passed and returned.\<close>

definition setConfig :: "obj \<Rightarrow> jsval \<Rightarrow> obj" where
  "setConfig cfg newConfig = object_assign cfg [newConfig]"

definition enable :: "obj \<Rightarrow> obj" where
  "enable cfg = fmupd ''enabled'' (Bool True) cfg"

definition disable :: "obj \<Rightarrow> obj" where
  "disable cfg = fmupd ''enabled'' (Bool False) cfg"

text \<open>
  What the caller supplied: a property is supplied by a value when it is one of the
  value's own properties. The caller's group \<open>g\<close> is \<^verbatim>\<open>user && user.g\<close>.
\<close>

definition supplies :: "jsval \<Rightarrow> string \<Rightarrow> bool" where
  "supplies v k = (k |\<in>| fmdom (own_props v))"

definition caller_group :: "jsval \<Rightarrow> string \<Rightarrow> jsval" where
  "caller_group user g = js_and user (member_of user g)"

definition group_names :: "string list" where
  "group_names = [''disguise'', ''redirect'', ''protection'']"

definition top_leaves :: "string list" where
  "top_leaves = [''enabled'', ''skipFirefox'', ''skipIframes'']"

definition group_leaves :: "(string \<times> string) list" where
  "group_leaves =
     [(''disguise'', ''title''), (''disguise'', ''favicon''),
      (''redirect'', ''enabled''), (''redirect'', ''urls''),
      (''protection'', ''exitConfirmation''), (''protection'', ''confirmationMessage'')]"

section \<open>The browser\<close>

text \<open>
  What the program asks of the browser is an environment of answers: the outcome of
  evaluating \<^verbatim>\<open>window !== window.top\<close> (a value or an exception), the agent string, the
  address and the earlier session-history entries of the original tab, the outcome of
  \<^verbatim>\<open>window.open("about:blank", "_blank")\<close> (an exception, \<^verbatim>\<open>null\<close>, or a handle with its
  \<^verbatim>\<open>closed\<close> flag), whether the browser honours \<^verbatim>\<open>window.close()\<close>, and what
  \<^verbatim>\<open>window.location.replace\<close> does with each address: the call throws, or it returns and
  the browser blocks the navigation without a word, or it returns and the tab navigates.
\<close>

datatype replace_result = Throws | Blocked | Navigates

record browser =
  top_probe :: "exn + bool"
  userAgent :: string
  location_href :: string
  back_entries :: "string list"
  window_open :: "exn + bool option"
  close_honoured :: bool
  replace_outcome :: "string \<Rightarrow> replace_result"

text \<open>
  The popup's document: the text of its title element (the element that assigning
  \<^verbatim>\<open>document.title\<close> creates in the head is kept as this field, not among the nodes), the
  other children of its head, the inline style and the children of its body. A fresh
  \<^verbatim>\<open>about:blank\<close> document has none of them.
\<close>

datatype node =
    LinkEl string string
  | ScriptEl string
  | IframeEl "(string \<times> string) list" string

record document =
  title :: string
  head :: "node list"
  body_style :: "(string \<times> string) list"
  body :: "node list"

definition blank_document :: document where
  "blank_document = \<lparr>title = [], head = [], body_style = [], body = []\<rparr>"

text \<open>
  Reading \<^verbatim>\<open>document.title\<close> gives the text of the title element with its ASCII
  whitespace (tab, line feed, form feed, carriage return, space) stripped at both ends and
  every inner run of it collapsed to one space.
\<close>

definition ascii_whitespace :: "char \<Rightarrow> bool" where
  "ascii_whitespace c = (c \<in> set [CHR 0x09, CHR 0x0A, CHR 0x0C, CHR 0x0D, CHR 0x20])"

fun squeeze :: "bool \<Rightarrow> string \<Rightarrow> string" where
  "squeeze gap [] = []"
| "squeeze gap (c # cs) =
     (if ascii_whitespace c then squeeze True cs
      else if gap then CHR 0x20 # c # squeeze False cs
      else c # squeeze False cs)"

definition strip_and_collapse :: "string \<Rightarrow> string" where
  "strip_and_collapse s = squeeze False (dropWhile ascii_whitespace s)"

definition document_title :: "document \<Rightarrow> string" where
  "document_title doc = strip_and_collapse (title doc)"

text \<open>
  What a call of the program does is recorded in a state: the calls made on the original
  window in order, the popup's document once \<^verbatim>\<open>popup.document\<close> has been taken, the
  exception caught by the \<^verbatim>\<open>catch\<close> of line 206, an exception that left the timer callback
  uncaught, the pending timers, and the original tab's address, its session history up to
  and including the current entry, and its \<^verbatim>\<open>closed\<close> flag.
\<close>

datatype event =
    ConsoleLog string
  | ConsoleError string exn
  | Alert string
  | WindowOpen string string
  | WindowClose
  | SetTimeout nat
  | LocationReplace string

record run =
  events :: "event list"
  popup :: "document option"
  caught :: "exn option"
  uncaught :: "exn option"
  timers :: "nat list"
  tab_href :: string
  tab_history :: "string list"
  tab_closed :: bool

definition start :: "browser \<Rightarrow> run" where
  "start w = \<lparr>events = [], popup = None, caught = None, uncaught = None, timers = [],
              tab_href = location_href w, tab_history = back_entries w @ [location_href w],
              tab_closed = False\<rparr>"

definition emit :: "event list \<Rightarrow> run \<Rightarrow> run" where
  "emit es r = r\<lparr>events := events r @ es\<rparr>"

section \<open>Environment checks\<close>

text \<open>\<^verbatim>\<open>isInFrame\<close>, lines 56 to 62: an exception of the comparison reads as nested.\<close>

definition isInFrame :: "browser \<Rightarrow> bool" where
  "isInFrame w = (case top_probe w of Inr differs \<Rightarrow> differs | Inl e \<Rightarrow> True)"

text \<open>\<^verbatim>\<open>String.prototype.includes\<close>: the needle occurs at some position of the string.\<close>

fun str_includes :: "string \<Rightarrow> string \<Rightarrow> bool" where
  "str_includes [] needle = (needle = [])"
| "str_includes (c # cs) needle = (take (length needle) (c # cs) = needle \<or> str_includes cs needle)"

definition isFirefox :: "browser \<Rightarrow> bool" where
  "isFirefox w = str_includes (userAgent w) ''Firefox''"

text \<open>\<^verbatim>\<open>isSupported\<close>, lines 232 to 234.\<close>

definition isSupported :: "browser \<Rightarrow> obj \<Rightarrow> bool" where
  "isSupported w cfg =
     (\<not> isInFrame w \<and> (\<not> truthy (member_of (Obj cfg) ''skipFirefox'') \<or> \<not> isFirefox w))"

section \<open>Building the popup\<close>

text \<open>
  A step that may throw returns the document as it is when the step ends, and the
  exception if one was thrown.
\<close>

text \<open>\<^verbatim>\<open>setupIframe\<close>, lines 82 to 103; the style properties in assignment order.\<close>

definition setupIframe :: "document \<Rightarrow> string \<Rightarrow> node" where
  "setupIframe doc currentUrl =
     IframeEl
       [(''position'', ''fixed''), (''top'', ''0''), (''bottom'', ''0''), (''left'', ''0''),
        (''right'', ''0''), (''border'', ''none''), (''outline'', ''none''),
        (''width'', ''100%''), (''height'', ''100%''), (''margin'', ''0''), (''padding'', ''0'')]
       currentUrl"

text \<open>\<^verbatim>\<open>setupDisguise\<close>, lines 108 to 119. The title and the link's address are DOM string
  attributes: the assigned value is converted to a string.\<close>

definition setupDisguise :: "obj \<Rightarrow> document \<Rightarrow> document \<times> exn option" where
  "setupDisguise cfg doc =
     (case get (member_of (Obj cfg) ''disguise'') ''title'' of
        Inl e \<Rightarrow> (doc, Some e)
      | Inr t \<Rightarrow>
          (let doc1 = doc\<lparr>title := to_string t\<rparr> in
           case get (member_of (Obj cfg) ''disguise'') ''favicon'' of
             Inl e \<Rightarrow> (doc1, Some e)
           | Inr favicon \<Rightarrow>
               if truthy favicon
               then (doc1\<lparr>head := head doc1 @ [LinkEl ''icon'' (to_string favicon)]\<rparr>, None)
               else (doc1, None)))"

text \<open>The template literal of lines 128 to 134, with the message interpolated.\<close>

definition script_text :: "string \<Rightarrow> string" where
  "script_text message =
     [CHR 0x0A] @ ''      window.onbeforeunload = function (event) {'' @
     [CHR 0x0A] @ ''        const confirmationMessage = '' @ [CHR 0x27] @ message @ [CHR 0x27] @ '';'' @
     [CHR 0x0A] @ ''        (event || window.event).returnValue = confirmationMessage;'' @
     [CHR 0x0A] @ ''        return confirmationMessage;'' @
     [CHR 0x0A] @ ''      };'' @
     [CHR 0x0A] @ ''    ''"

text \<open>\<^verbatim>\<open>addExitProtection\<close>, lines 124 to 136.\<close>

definition addExitProtection :: "obj \<Rightarrow> document \<Rightarrow> document \<times> exn option" where
  "addExitProtection cfg doc =
     (case get (member_of (Obj cfg) ''protection'') ''exitConfirmation'' of
        Inl e \<Rightarrow> (doc, Some e)
      | Inr exitConfirmation \<Rightarrow>
          if \<not> truthy exitConfirmation then (doc, None)
          else
            (case get (member_of (Obj cfg) ''protection'') ''confirmationMessage'' of
               Inl e \<Rightarrow> (doc, Some e)
             | Inr message \<Rightarrow>
                 (doc\<lparr>head := head doc @ [ScriptEl (script_text (to_string message))]\<rparr>, None)))"

definition popup_blocked_message :: string where
  "popup_blocked_message =
     ''Please allow popups to use about:blank mode. The page will load normally in about:blank and prevents it from going in your history. Also, no extensions will be able to see the content.''"

text \<open>
  The body of the \<^verbatim>\<open>try\<close>, lines 163 to 204. \<^verbatim>\<open>window.close()\<close> is a request: the tab's
  \<^verbatim>\<open>closed\<close> flag becomes what the browser decides. The timer's callback is
  \<open>fallback_callback\<close> below.
\<close>

definition try_block :: "browser \<Rightarrow> obj \<Rightarrow> string \<Rightarrow> run \<Rightarrow> run \<times> exn option" where
  "try_block w cfg currentUrl r0 =
     (let r1 = emit [WindowOpen ''about:blank'' ''_blank''] r0 in
      case window_open w of
        Inl e \<Rightarrow> (r1, Some e)
      | Inr None \<Rightarrow> (emit [Alert popup_blocked_message] r1, None)
      | Inr (Some popup_closed) \<Rightarrow>
          if popup_closed then (emit [Alert popup_blocked_message] r1, None)
          else
            (case setupDisguise cfg blank_document of
               (d1, Some e) \<Rightarrow> (r1\<lparr>popup := Some d1\<rparr>, Some e)
             | (d1, None) \<Rightarrow>
                 (let iframe = setupIframe d1 currentUrl in
                  case addExitProtection cfg d1 of
                    (d2, Some e) \<Rightarrow> (r1\<lparr>popup := Some d2\<rparr>, Some e)
                  | (d2, None) \<Rightarrow>
                      (let d3 = d2\<lparr>body_style := body_style d2 @ [(''margin'', ''0''), (''padding'', ''0'')],
                                    body := body d2 @ [iframe]\<rparr>;
                           r2 = r1\<lparr>popup := Some d3\<rparr>
                       in case get (member_of (Obj cfg) ''redirect'') ''enabled'' of
                            Inl e \<Rightarrow> (r2, Some e)
                          | Inr enabled \<Rightarrow>
                              if truthy enabled
                              then ((emit [WindowClose, SetTimeout 100] r2)
                                      \<lparr>tab_closed := close_honoured w, timers := timers r2 @ [100]\<rparr>, None)
                              else (r2, None)))))"

text \<open>\<^verbatim>\<open>launchInAboutBlank\<close>, lines 141 to 210: the synchronous call.\<close>

definition launchInAboutBlank :: "browser \<Rightarrow> obj \<Rightarrow> run" where
  "launchInAboutBlank w cfg =
     (if \<not> truthy (member_of (Obj cfg) ''enabled'')
      then emit [ConsoleLog ''About:blank launcher is disabled''] (start w)
      else if truthy (member_of (Obj cfg) ''skipIframes'') \<and> isInFrame w
      then emit [ConsoleLog ''Skipping about:blank launch - already in iframe''] (start w)
      else if truthy (member_of (Obj cfg) ''skipFirefox'') \<and> isFirefox w
      then emit [ConsoleLog ''Skipping about:blank launch - Firefox detected''] (start w)
      else
        (let currentUrl = location_href w in
         case try_block w cfg currentUrl (start w) of
           (r, None) \<Rightarrow> r
         | (r, Some error) \<Rightarrow>
             (emit [ConsoleError ''Failed to launch about:blank popup:'' error,
                    Alert ''Failed to open stealth mode. The page will load normally.''] r)
               \<lparr>caught := Some error\<rparr>))"

section \<open>Disposing of the original tab\<close>

text \<open>
  \<^verbatim>\<open>window.location.replace(url)\<close>: the call throws, or returns with the navigation
  blocked and the tab where it was, or returns with the tab navigated in place: the address
  takes the place of the current session-history entry and no entry is added.
\<close>

definition location_replace :: "browser \<Rightarrow> string \<Rightarrow> run \<Rightarrow> run \<times> exn option" where
  "location_replace w url r =
     (let r1 = emit [LocationReplace url] r in
      case replace_outcome w url of
        Throws \<Rightarrow> (r1, Some (Thrown url))
      | Blocked \<Rightarrow> (r1, None)
      | Navigates \<Rightarrow>
          (r1\<lparr>tab_href := url, tab_history := butlast (tab_history r1) @ [url]\<rparr>, None))"

text \<open>The timer's callback, lines 189 to 203. The last call is in no \<^verbatim>\<open>try\<close>.\<close>

definition fallback_callback :: "browser \<Rightarrow> run \<Rightarrow> run" where
  "fallback_callback w r =
     (if tab_closed r then r
      else
        (let r1 = emit [ConsoleLog ''Could not close tab, redirecting to new tab page''] r in
         case location_replace w ''chrome://newtab/'' r1 of
           (r2, None) \<Rightarrow> r2
         | (r2, Some e) \<Rightarrow>
             (case location_replace w ''about:newtab'' r2 of
                (r3, None) \<Rightarrow> r3
              | (r3, Some e2) \<Rightarrow>
                  (case location_replace w ''about:blank'' r3 of
                     (r4, None) \<Rightarrow> r4
                   | (r4, Some e3) \<Rightarrow> r4\<lparr>uncaught := Some e3\<rparr>))))"

text \<open>The call of \<^verbatim>\<open>launch()\<close> followed by the firing of the timer it has set, if any.\<close>

definition launch_settled :: "browser \<Rightarrow> obj \<Rightarrow> run" where
  "launch_settled w cfg =
     (let r = launchInAboutBlank w cfg in
      case timers r of [] \<Rightarrow> r | t # ts \<Rightarrow> fallback_callback w (r\<lparr>timers := ts\<rparr>))"

section \<open>The random pick\<close>

text \<open>
  \<^verbatim>\<open>Math.random()\<close> returns a double \<open>d\<close> with \<open>0 \<le> d < 1\<close>. Every such double is an
  integer multiple of \<open>2 ^ -1074\<close> with at most 53 significant bits, and is represented
  here by that multiple \<open>m\<close>, so \<open>d = m / 2 ^ 1074\<close>. An array length is below \<open>2 ^ 32\<close>
  and converts to a double exactly, so the exact product is \<open>m * len / 2 ^ 1074\<close>; the
  multiplication returns it rounded to 53 significant bits, ties to even (a product with
  at most 53 bits is below \<open>2 ^ -1021\<close>, where every multiple of \<open>2 ^ -1074\<close> is a
  double), and \<^verbatim>\<open>Math.floor\<close> takes the integer part.
\<close>

definition significand_bits :: nat where
  "significand_bits = 53"

definition scale_bits :: nat where
  "scale_bits = 1074"

fun bit_length :: "nat \<Rightarrow> nat" where
  "bit_length n = (if n = 0 then 0 else Suc (bit_length (n div 2)))"

declare bit_length.simps [simp del]

definition unit_double :: "nat \<Rightarrow> bool" where
  "unit_double m = (m < 2 ^ scale_bits \<and> m mod 2 ^ (bit_length m - significand_bits) = 0)"

definition round_to_double :: "nat \<Rightarrow> nat" where
  "round_to_double x =
     (let s = bit_length x - significand_bits; q = x div 2 ^ s; r = x mod 2 ^ s
      in if 2 ^ s < 2 * r \<or> (2 * r = 2 ^ s \<and> odd q) then (q + 1) * 2 ^ s else q * 2 ^ s)"

definition random_index :: "nat \<Rightarrow> nat \<Rightarrow> nat" where
  "random_index m len = round_to_double (m * len) div 2 ^ scale_bits"

text \<open>
  \<^verbatim>\<open>getRandomRedirectUrl\<close>, lines 74 to 77, with the random draw as an argument. Reading
  \<^verbatim>\<open>length\<close> of \<^verbatim>\<open>undefined\<close> or \<^verbatim>\<open>null\<close> throws; an index outside the array reads as
  \<^verbatim>\<open>undefined\<close>. The result \<open>None\<close> marks a redirect list of another kind (a string, a
  boolean, an object), whose numeric coercions are not modelled.
\<close>

definition getRandomRedirectUrl :: "nat \<Rightarrow> obj \<Rightarrow> (exn + jsval) option" where
  "getRandomRedirectUrl m cfg =
     (case get (member_of (Obj cfg) ''redirect'') ''urls'' of
        Inl e \<Rightarrow> Some (Inl e)
      | Inr urls \<Rightarrow>
          (case urls of
             Arr xs \<Rightarrow>
               (let i = random_index m (length xs)
                in Some (Inr (if i < length xs then xs ! i else Undefined)))
           | Undefined \<Rightarrow> Some (Inl TypeError)
           | Null \<Rightarrow> Some (Inl TypeError)
           | _ \<Rightarrow> None))"

section \<open>Reading a run\<close>

text \<open>
  The three early returns of lines 143 to 158 are not taken: the launcher is enabled and
  neither enabled check vetoes.
\<close>

definition guard_passes :: "browser \<Rightarrow> obj \<Rightarrow> bool" where
  "guard_passes w cfg =
     (truthy (member_of (Obj cfg) ''enabled'')
      \<and> \<not> (truthy (member_of (Obj cfg) ''skipIframes'') \<and> isInFrame w)
      \<and> \<not> (truthy (member_of (Obj cfg) ''skipFirefox'') \<and> isFirefox w))"

text \<open>The two environment checks alone, as the launcher applies them.\<close>

definition environment_permits :: "browser \<Rightarrow> obj \<Rightarrow> bool" where
  "environment_permits w cfg =
     (\<not> (truthy (member_of (Obj cfg) ''skipIframes'') \<and> isInFrame w)
      \<and> \<not> (truthy (member_of (Obj cfg) ''skipFirefox'') \<and> isFirefox w))"

fun is_link :: "node \<Rightarrow> bool" where
  "is_link (LinkEl rel url) = True"
| "is_link (ScriptEl text) = False"
| "is_link (IframeEl style src) = False"

fun iframe_src :: "node \<Rightarrow> string option" where
  "iframe_src (LinkEl rel url) = None"
| "iframe_src (ScriptEl text) = None"
| "iframe_src (IframeEl style src) = Some src"

text \<open>The addresses passed to \<^verbatim>\<open>window.location.replace\<close>, in call order.\<close>

fun replace_calls :: "event list \<Rightarrow> string list" where
  "replace_calls [] = []"
| "replace_calls (LocationReplace url # es) = url # replace_calls es"
| "replace_calls (e # es) = replace_calls es"





text \<open>
  A title that reads back as it was written: no whitespace at either end, and between
  two words exactly one space.
\<close>

fun single_spaced :: "string \<Rightarrow> bool" where
  "single_spaced [] = True"
| "single_spaced [c] = (\<not> ascii_whitespace c)"
| "single_spaced (c # d # cs) =
     (\<not> ascii_whitespace c \<and>
      (if d = CHR 0x20 then cs \<noteq> [] \<and> single_spaced cs else single_spaced (d # cs)))"

section \<open>Sample inputs\<close>

text \<open>Concrete configurations and browsers at which the theorems below are instantiated.\<close>

definition sample_partial :: jsval where
  "sample_partial = Obj (fmap_of_list
     [(''skipFirefox'', Bool False),
      (''disguise'', Obj (fmap_of_list [(''title'', Str ''Notes'')]))])"

definition default_urls :: "jsval list" where
  "default_urls =
     [Str ''https://classroom.google.com'', Str ''https://drive.google.com'',
      Str ''https://google.com'', Str ''https://docs.google.com'',
      Str ''https://slides.google.com'', Str ''https://kahoot.it'',
      Str ''https://clever.com'', Str ''https://khanacademy.org'',
      Str ''https://wikipedia.org'']"

definition empty_urls_config :: obj where
  "empty_urls_config =
     config (Obj (fmap_of_list [(''redirect'', Obj (fmap_of_list [(''urls'', Arr [])]))]))"

definition title_only :: obj where
  "title_only = fmap_of_list [(''disguise'', Obj (fmap_of_list [(''title'', Str ''Notes'')]))]"

text \<open>
  A top-level tab of a Chromium browser on the lesson page, where popups are allowed, the
  tab was not opened by a script (so \<^verbatim>\<open>window.close()\<close> is ignored) and navigating to
  \<^verbatim>\<open>chrome://newtab/\<close> throws.
\<close>

definition lesson_tab :: browser where
  "lesson_tab =
     \<lparr>top_probe = Inr False,
      userAgent = ''Mozilla/5.0 (X11; Linux x86_64) AppleWebKit/537.36 (KHTML, like Gecko) Chrome/120.0.0.0 Safari/537.36'',
      location_href = ''https://example.edu/lesson'',
      back_entries = [''https://example.edu/''],
      window_open = Inr (Some False),
      close_honoured = False,
      replace_outcome = (\<lambda>url. if url = ''chrome://newtab/'' then Throws else Navigates)\<rparr>"

text \<open>The default configuration with the frame check switched off.\<close>

definition frames_allowed_config :: obj where
  "frames_allowed_config =
     setConfig (config Undefined) (Obj (fmap_of_list [(''skipIframes'', Bool False)]))"

text \<open>The live configuration after \<^verbatim>\<open>setConfig({disguise: {title: "Notes"}})\<close>.\<close>

definition no_favicon_config :: obj where
  "no_favicon_config = setConfig (config Undefined) (Obj title_only)"



text \<open>The configuration loaded with \<^verbatim>\<open>{disguise: {title: " My  Drive "}}\<close>.\<close>

definition spaced_title_config :: obj where
  "spaced_title_config =
     config (Obj (fmap_of_list [(''disguise'', Obj (fmap_of_list [(''title'', Str '' My  Drive '')]))]))"

section \<open>Properties of the configuration\<close>

lemma own_props_js_or: "own_props (js_or u (Obj fmempty)) = own_props u"
  by (cases u) (auto simp: js_or_def)

lemma lookup_object_assign2:
  "fmlookup (object_assign fmempty [a, b]) k =
     (if k |\<in>| fmdom (own_props b) then fmlookup (own_props b) k else fmlookup (own_props a) k)"
  by (simp add: object_assign_def)

lemma mergeGroup_lookup:
  "mergeGroup d u g = Obj m \<Longrightarrow>
   fmlookup m l = (if supplies (caller_group u g) l then fmlookup (own_props (caller_group u g)) l
                   else fmlookup (own_props (member_of (Obj d) g)) l)"
  by (auto simp: mergeGroup_def lookup_object_assign2 own_props_js_or supplies_def caller_group_def)

lemma config_lookup_group:
  "g \<in> set group_names \<Longrightarrow> fmlookup (mergeConfig d u) g = Some (mergeGroup d u g)"
  by (auto simp: mergeConfig_def group_names_def Let_def)

lemma config_lookup_other:
  "k \<notin> set group_names \<Longrightarrow>
   fmlookup (mergeConfig d u) k = (if supplies u k then fmlookup (own_props u) k else fmlookup d k)"
  by (auto simp: mergeConfig_def group_names_def Let_def lookup_object_assign2 own_props_js_or
      supplies_def)

lemma fmadd_twice: "(m ++\<^sub>f n) ++\<^sub>f n = m ++\<^sub>f n"
  by (rule fmap_ext) simp

lemma member_of_mergeConfig_group:
  "g \<in> set group_names \<Longrightarrow> member_of (Obj (mergeConfig d u)) g = mergeGroup d u g"
  by (simp add: member_of_def config_lookup_group)

lemma mergeGroup_idem:
  assumes "g \<in> set group_names"
  shows "mergeGroup (mergeConfig d u) u g = mergeGroup d u g"
proof -
  have "mergeGroup (mergeConfig d u) u g =
        Obj (object_assign fmempty
          [mergeGroup d u g, js_or (js_and u (member_of u g)) (Obj fmempty)])"
    unfolding mergeGroup_def[of "mergeConfig d u"] member_of_mergeConfig_group[OF assms] ..
  also have "\<dots> = mergeGroup d u g"
    by (simp add: mergeGroup_def object_assign_def fmadd_twice)
  finally show ?thesis .
qed

lemma mergeConfig_idem: "mergeConfig (mergeConfig d u) u = mergeConfig d u"
proof (rule fmap_ext)
  fix k
  show "fmlookup (mergeConfig (mergeConfig d u) u) k = fmlookup (mergeConfig d u) k"
  proof (cases "k \<in> set group_names")
    case True
    then show ?thesis by (simp add: config_lookup_group mergeGroup_idem)
  next
    case False
    then show ?thesis by (simp add: config_lookup_other)
  qed
qed

lemma default_top_all:
  "\<forall>k\<in>set top_leaves. member_of (Obj defaultConfig) k \<noteq> Undefined"
  unfolding top_leaves_def by (simp add: member_of_def defaultConfig_def)

lemma default_group_all:
  "\<forall>(g, l)\<in>set group_leaves. member_of (member_of (Obj defaultConfig) g) l \<noteq> Undefined"
  unfolding group_leaves_def by (simp add: member_of_def defaultConfig_def)

lemma default_top_defined:
  "k \<in> set top_leaves \<Longrightarrow> member_of (Obj defaultConfig) k \<noteq> Undefined"
  using default_top_all by blast

lemma default_group_defined:
  "(g, l) \<in> set group_leaves \<Longrightarrow> member_of (member_of (Obj defaultConfig) g) l \<noteq> Undefined"
  using default_group_all by blast

lemma top_leaves_not_groups: "k \<in> set top_leaves \<Longrightarrow> k \<notin> set group_names"
  by (auto simp: top_leaves_def group_names_def)

lemma group_leaves_groups: "(g, l) \<in> set group_leaves \<Longrightarrow> g \<in> set group_names"
  by (auto simp: group_leaves_def group_names_def)

lemma member_of_config_other:
  "k \<notin> set group_names \<Longrightarrow>
   member_of (Obj (mergeConfig d u)) k =
     (if supplies u k then member_of u k else member_of (Obj d) k)"
  by (simp add: member_of_def config_lookup_other)

lemma member_of_mergeGroup:
  "member_of (mergeGroup d u g) l =
     (if supplies (caller_group u g) l then member_of (caller_group u g) l
      else member_of (member_of (Obj d) g) l)"
proof -
  obtain m where m: "mergeGroup d u g = Obj m" by (simp add: mergeGroup_def)
  show ?thesis
    using mergeGroup_lookup[OF m, of l] by (simp add: m member_of_def)
qed

lemma config_group_leaf_default:
  assumes gl: "(g, l) \<in> set group_leaves" and ns: "\<not> supplies (caller_group user g) l"
  shows "member_of (member_of (Obj (config user)) g) l = member_of (member_of (Obj defaultConfig) g) l"
  by (simp add: config_def member_of_mergeConfig_group[OF group_leaves_groups[OF gl]]
      member_of_mergeGroup ns)

text \<open>
  Claim C3. For every value of \<^verbatim>\<open>window.aboutBlankConfig\<close>, the merge of lines 48 to 51
  gives a configuration in which every property outside the three groups is the caller's
  when the caller supplied it and the default otherwise; each of the three groups is an
  object whose every property is the caller's when the caller's group supplied it and the
  default group's otherwise; merging the same value again over the result changes nothing;
  and no leaf of the schema that the caller left out reads as \<^verbatim>\<open>undefined\<close>.
\<close>

theorem config_merge:
  "(\<forall>k. k \<notin> set group_names \<longrightarrow>
      member_of (Obj (config user)) k =
        (if supplies user k then member_of user k else member_of (Obj defaultConfig) k))
   \<and> (\<forall>g\<in>set group_names. \<exists>m. member_of (Obj (config user)) g = Obj m \<and>
        (\<forall>l. member_of (Obj m) l =
          (if supplies (caller_group user g) l then member_of (caller_group user g) l
           else member_of (member_of (Obj defaultConfig) g) l)))
   \<and> mergeConfig (config user) user = config user
   \<and> (\<forall>k\<in>set top_leaves. \<not> supplies user k \<longrightarrow> member_of (Obj (config user)) k \<noteq> Undefined)
   \<and> (\<forall>(g, l)\<in>set group_leaves. \<not> supplies (caller_group user g) l \<longrightarrow>
        member_of (member_of (Obj (config user)) g) l \<noteq> Undefined)"
proof (intro conjI)
  show "\<forall>k. k \<notin> set group_names \<longrightarrow>
      member_of (Obj (config user)) k =
        (if supplies user k then member_of user k else member_of (Obj defaultConfig) k)"
    by (simp add: config_def member_of_config_other)
next
  show "\<forall>g\<in>set group_names. \<exists>m. member_of (Obj (config user)) g = Obj m \<and>
        (\<forall>l. member_of (Obj m) l =
          (if supplies (caller_group user g) l then member_of (caller_group user g) l
           else member_of (member_of (Obj defaultConfig) g) l))"
  proof
    fix g assume g: "g \<in> set group_names"
    obtain m where m: "mergeGroup defaultConfig user g = Obj m" by (simp add: mergeGroup_def)
    have "member_of (Obj (config user)) g = Obj m"
      by (simp add: config_def member_of_mergeConfig_group[OF g] m)
    moreover have "\<forall>l. member_of (Obj m) l =
          (if supplies (caller_group user g) l then member_of (caller_group user g) l
           else member_of (member_of (Obj defaultConfig) g) l)"
      using member_of_mergeGroup[of defaultConfig user g] by (simp add: m)
    ultimately show "\<exists>m. member_of (Obj (config user)) g = Obj m \<and>
        (\<forall>l. member_of (Obj m) l =
          (if supplies (caller_group user g) l then member_of (caller_group user g) l
           else member_of (member_of (Obj defaultConfig) g) l))"
      by blast
  qed
next
  show "mergeConfig (config user) user = config user"
    by (simp add: config_def mergeConfig_idem)
next
  show "\<forall>k\<in>set top_leaves. \<not> supplies user k \<longrightarrow> member_of (Obj (config user)) k \<noteq> Undefined"
    by (simp add: config_def member_of_config_other top_leaves_not_groups default_top_defined)
next
  show "\<forall>(g, l)\<in>set group_leaves. \<not> supplies (caller_group user g) l \<longrightarrow>
        member_of (member_of (Obj (config user)) g) l \<noteq> Undefined"
  proof (clarify)
    fix g l
    assume gl: "(g, l) \<in> set group_leaves" and ns: "\<not> supplies (caller_group user g) l"
      and u: "member_of (member_of (Obj (config user)) g) l = Undefined"
    from config_group_leaf_default[OF gl ns] u default_group_defined[OF gl]
    show False by simp
  qed
qed

lemma sample_partial_supplies:
  "\<not> supplies sample_partial ''enabled''" "supplies sample_partial ''skipFirefox''"
  "member_of sample_partial ''skipFirefox'' = Bool False"
  "caller_group sample_partial ''disguise'' = Obj (fmap_of_list [(''title'', Str ''Notes'')])"
  "caller_group sample_partial ''redirect'' = Undefined"
  by (simp_all add: supplies_def sample_partial_def member_of_def caller_group_def js_and_def)

lemma default_reads:
  "member_of (Obj defaultConfig) ''enabled'' = Bool True"
  "member_of (member_of (Obj defaultConfig) ''disguise'') ''favicon'' =
     Str ''https://ssl.gstatic.com/docs/doclist/images/drive_2022q3_32dp.png''"
  by (simp_all add: member_of_def defaultConfig_def)

theorem config_merge_witness:
  "member_of (Obj (config sample_partial)) ''enabled'' = Bool True
   \<and> member_of (Obj (config sample_partial)) ''skipFirefox'' = Bool False
   \<and> (\<exists>m. member_of (Obj (config sample_partial)) ''disguise'' = Obj m
        \<and> member_of (Obj m) ''title'' = Str ''Notes''
        \<and> member_of (Obj m) ''favicon'' =
            Str ''https://ssl.gstatic.com/docs/doclist/images/drive_2022q3_32dp.png'')
   \<and> mergeConfig (config sample_partial) sample_partial = config sample_partial
   \<and> member_of (member_of (Obj (config sample_partial)) ''redirect'') ''urls'' \<noteq> Undefined"
proof -
  note t = config_merge[of sample_partial]
  have top: "\<forall>k. k \<notin> set group_names \<longrightarrow>
      member_of (Obj (config sample_partial)) k =
        (if supplies sample_partial k then member_of sample_partial k
         else member_of (Obj defaultConfig) k)"
    using t by blast
  have a: "member_of (Obj (config sample_partial)) ''enabled'' = Bool True"
    using top[rule_format, of "''enabled''"]
    by (simp add: group_names_def sample_partial_supplies default_reads)
  have b: "member_of (Obj (config sample_partial)) ''skipFirefox'' = Bool False"
    using top[rule_format, of "''skipFirefox''"]
    by (simp add: group_names_def sample_partial_supplies)
  have grp: "\<forall>g\<in>set group_names. \<exists>m. member_of (Obj (config sample_partial)) g = Obj m \<and>
        (\<forall>l. member_of (Obj m) l =
          (if supplies (caller_group sample_partial g) l
           then member_of (caller_group sample_partial g) l
           else member_of (member_of (Obj defaultConfig) g) l))"
    using t by blast
  have "''disguise'' \<in> set group_names" by (simp add: group_names_def)
  with grp obtain m where m: "member_of (Obj (config sample_partial)) ''disguise'' = Obj m"
    and ml: "\<And>l. member_of (Obj m) l =
          (if supplies (caller_group sample_partial ''disguise'') l
           then member_of (caller_group sample_partial ''disguise'') l
           else member_of (member_of (Obj defaultConfig) ''disguise'') l)"
    by blast
  have c1: "member_of (Obj m) ''title'' = Str ''Notes''"
    unfolding ml sample_partial_supplies by (simp add: supplies_def member_of_def)
  have c2: "member_of (Obj m) ''favicon'' =
      Str ''https://ssl.gstatic.com/docs/doclist/images/drive_2022q3_32dp.png''"
    unfolding ml sample_partial_supplies by (simp add: supplies_def default_reads)
  have d: "mergeConfig (config sample_partial) sample_partial = config sample_partial"
    using t by blast
  have leaves: "\<forall>(g, l)\<in>set group_leaves. \<not> supplies (caller_group sample_partial g) l \<longrightarrow>
        member_of (member_of (Obj (config sample_partial)) g) l \<noteq> Undefined"
    using t by blast
  have "(''redirect'', ''urls'') \<in> set group_leaves" by (simp add: group_leaves_def)
  with leaves have e: "member_of (member_of (Obj (config sample_partial)) ''redirect'') ''urls'' \<noteq> Undefined"
    by (auto simp: sample_partial_supplies supplies_def)
  from a b m c1 c2 d e show ?thesis by blast
qed

text \<open>
  Claim C7. \<^verbatim>\<open>setConfig\<close> assigns at the top level only: every property of the caller's
  object replaces the live one, and the others stay. So when the caller's object holds an
  object under a group name, the live group becomes that object, and a leaf the caller's
  group lacks reads as \<^verbatim>\<open>undefined\<close> afterwards, whatever it was before; whereas the merge
  at script evaluation time, given the same object, keeps the default of such a leaf.
\<close>

theorem setConfig_shallow:
  assumes "fmlookup partial g = Some (Obj grp)"
  shows "(\<forall>k. fmlookup (setConfig cfg (Obj partial)) k =
            (if k |\<in>| fmdom partial then fmlookup partial k else fmlookup cfg k))
       \<and> member_of (Obj (setConfig cfg (Obj partial))) g = Obj grp
       \<and> (\<forall>l. l |\<notin>| fmdom grp \<longrightarrow>
            member_of (member_of (Obj (setConfig cfg (Obj partial))) g) l = Undefined)
       \<and> (\<forall>l. (g, l) \<in> set group_leaves \<and> l |\<notin>| fmdom grp \<longrightarrow>
            member_of (member_of (Obj (config (Obj partial))) g) l =
              member_of (member_of (Obj defaultConfig) g) l
            \<and> member_of (member_of (Obj (config (Obj partial))) g) l \<noteq> Undefined)"
proof (intro conjI allI impI)
  fix k
  show "fmlookup (setConfig cfg (Obj partial)) k =
          (if k |\<in>| fmdom partial then fmlookup partial k else fmlookup cfg k)"
    by (simp add: setConfig_def object_assign_def)
next
  have dom: "g |\<in>| fmdom partial" using assms by (simp add: fmdomI)
  show grp: "member_of (Obj (setConfig cfg (Obj partial))) g = Obj grp"
    using assms dom by (simp add: setConfig_def object_assign_def member_of_def)
  fix l assume "l |\<notin>| fmdom grp"
  then have "fmlookup grp l = None" by (simp add: fmdom_notD)
  then show "member_of (member_of (Obj (setConfig cfg (Obj partial))) g) l = Undefined"
    unfolding grp by (simp add: member_of_def)
next
  fix l assume a: "(g, l) \<in> set group_leaves \<and> l |\<notin>| fmdom grp"
  have cg: "caller_group (Obj partial) g = Obj grp"
    using assms by (simp add: caller_group_def js_and_def member_of_def)
  have ns: "\<not> supplies (caller_group (Obj partial) g) l"
    using a by (simp add: cg supplies_def)
  from a have gl: "(g, l) \<in> set group_leaves" by simp
  show "member_of (member_of (Obj (config (Obj partial))) g) l =
      member_of (member_of (Obj defaultConfig) g) l"
    by (rule config_group_leaf_default[OF gl ns])
  then show "member_of (member_of (Obj (config (Obj partial))) g) l \<noteq> Undefined"
    using default_group_defined[OF gl] by simp
qed

lemma title_only_disguise:
  "fmlookup title_only ''disguise'' = Some (Obj (fmap_of_list [(''title'', Str ''Notes'')]))"
  by (simp add: title_only_def)

theorem setConfig_shallow_witness:
  "fmlookup title_only ''disguise'' = Some (Obj (fmap_of_list [(''title'', Str ''Notes'')]))
   \<and> member_of (member_of (Obj (setConfig (config Undefined) (Obj title_only))) ''disguise'') ''title''
       = Str ''Notes''
   \<and> member_of (member_of (Obj (setConfig (config Undefined) (Obj title_only))) ''disguise'') ''favicon''
       = Undefined
   \<and> member_of (member_of (Obj (config (Obj title_only))) ''disguise'') ''favicon''
       = Str ''https://ssl.gstatic.com/docs/doclist/images/drive_2022q3_32dp.png''"
proof -
  note t = setConfig_shallow[OF title_only_disguise, of "config Undefined"]
  have g: "member_of (Obj (setConfig (config Undefined) (Obj title_only))) ''disguise'' =
      Obj (fmap_of_list [(''title'', Str ''Notes'')])"
    using t by blast
  have a: "member_of (member_of (Obj (setConfig (config Undefined) (Obj title_only))) ''disguise'') ''title''
      = Str ''Notes''"
    unfolding g by (simp add: member_of_def)
  have "\<forall>l. l |\<notin>| fmdom (fmap_of_list [(''title'', Str ''Notes'')]) \<longrightarrow>
      member_of (member_of (Obj (setConfig (config Undefined) (Obj title_only))) ''disguise'') l
        = Undefined"
    using t by blast
  then have b: "member_of (member_of (Obj (setConfig (config Undefined) (Obj title_only))) ''disguise'') ''favicon''
      = Undefined"
    by simp
  have "\<forall>l. (''disguise'', l) \<in> set group_leaves
        \<and> l |\<notin>| fmdom (fmap_of_list [(''title'', Str ''Notes'')]) \<longrightarrow>
      member_of (member_of (Obj (config (Obj title_only))) ''disguise'') l =
        member_of (member_of (Obj defaultConfig) ''disguise'') l
      \<and> member_of (member_of (Obj (config (Obj title_only))) ''disguise'') l \<noteq> Undefined"
    using t by blast
  then have c: "member_of (member_of (Obj (config (Obj title_only))) ''disguise'') ''favicon''
      = Str ''https://ssl.gstatic.com/docs/doclist/images/drive_2022q3_32dp.png''"
    by (simp add: group_leaves_def default_reads)
  from title_only_disguise a b c show ?thesis by blast
qed

text \<open>
  Claim C10. \<^verbatim>\<open>enable()\<close> sets the \<^verbatim>\<open>enabled\<close> property of the live configuration to
  \<^verbatim>\<open>true\<close> and \<^verbatim>\<open>disable()\<close> sets it to \<^verbatim>\<open>false\<close>; every other property of the
  configuration, the three groups with all their leaves among them, is what it was.
\<close>

theorem enable_disable_frame:
  "member_of (Obj (enable cfg)) ''enabled'' = Bool True
   \<and> member_of (Obj (disable cfg)) ''enabled'' = Bool False
   \<and> (\<forall>k. k \<noteq> ''enabled'' \<longrightarrow>
         fmlookup (enable cfg) k = fmlookup cfg k \<and> fmlookup (disable cfg) k = fmlookup cfg k)"
  by (simp add: enable_def disable_def member_of_def)

theorem enable_disable_frame_witness:
  "member_of (Obj (enable (disable defaultConfig))) ''enabled'' = Bool True
   \<and> member_of (Obj (disable defaultConfig)) ''enabled'' = Bool False
   \<and> fmlookup (disable defaultConfig) ''skipFirefox'' = Some (Bool True)
   \<and> fmlookup (enable defaultConfig) ''redirect'' = fmlookup defaultConfig ''redirect''"
proof -
  have k: "''skipFirefox'' \<noteq> ''enabled''" "''redirect'' \<noteq> ''enabled''" by simp_all
  have s: "fmlookup defaultConfig ''skipFirefox'' = Some (Bool True)"
    by (simp add: defaultConfig_def)
  from enable_disable_frame[of "disable defaultConfig"] enable_disable_frame[of defaultConfig] k s
  show ?thesis by simp
qed

section \<open>Properties of the random pick\<close>

lemma significand_le_scale: "significand_bits \<le> scale_bits"
  by (simp add: significand_bits_def scale_bits_def)

lemma significand_pos: "0 < significand_bits"
  by (simp add: significand_bits_def)

lemma bit_length_upper: "n < 2 ^ bit_length n"
proof (induction n rule: bit_length.induct)
  case (1 n)
  show ?case
  proof (cases "n = 0")
    case True
    then show ?thesis by simp
  next
    case False
    with 1 have "n div 2 < 2 ^ bit_length (n div 2)" by simp
    then have "n < 2 * 2 ^ bit_length (n div 2)" by linarith
    with False show ?thesis by (simp add: bit_length.simps[of n])
  qed
qed

lemma bit_length_lower: "0 < n \<Longrightarrow> 2 ^ (bit_length n - 1) \<le> n"
proof (induction n rule: bit_length.induct)
  case (1 n)
  then have n: "n \<noteq> 0" by simp
  have bl: "bit_length n = Suc (bit_length (n div 2))"
    using n by (simp add: bit_length.simps[of n])
  show ?case
  proof (cases "n div 2 = 0")
    case True
    then have "bit_length (n div 2) = 0" by (simp add: bit_length.simps[of 0])
    with bl 1 show ?thesis by simp
  next
    case False
    then have pos: "0 < n div 2" by simp
    from 1 n pos have ih: "2 ^ (bit_length (n div 2) - 1) \<le> n div 2" by simp
    have "bit_length (n div 2) \<noteq> 0"
      using False by (simp add: bit_length.simps[of "n div 2"])
    then obtain k where k: "bit_length (n div 2) = Suc k" by (cases "bit_length (n div 2)") auto
    from ih k have "2 ^ k \<le> n div 2" by simp
    then have "2 * 2 ^ k \<le> n" by linarith
    with bl k show ?thesis by simp
  qed
qed

lemma unit_double_gap:
  assumes "unit_double m"
  shows "m + 2 ^ (scale_bits - significand_bits) \<le> 2 ^ scale_bits"
proof -
  let ?e = scale_bits and ?p = significand_bits
  from assms have lt: "m < 2 ^ ?e" and md: "m mod 2 ^ (bit_length m - ?p) = 0"
    by (simp_all add: unit_double_def)
  have pe: "?p \<le> ?e" by (rule significand_le_scale)
  have p0: "0 < ?p" by (rule significand_pos)
  show ?thesis
  proof (cases "bit_length m < ?e")
    case True
    then have "bit_length m \<le> ?e - 1" by simp
    then have "(2::nat) ^ bit_length m \<le> 2 ^ (?e - 1)" by (rule power_increasing) simp
    with bit_length_upper[of m] have a: "m < 2 ^ (?e - 1)" by linarith
    have "?e - ?p \<le> ?e - 1" using p0 by simp
    then have b: "(2::nat) ^ (?e - ?p) \<le> 2 ^ (?e - 1)" by (rule power_increasing) simp
    have "0 < ?e" using pe p0 by simp
    then have c: "(2::nat) ^ ?e = 2 * 2 ^ (?e - 1)"
      using power_minus_mult[of ?e "2::nat"] by (simp add: mult.commute)
    from a b c show ?thesis by linarith
  next
    case False
    then have ge: "?e \<le> bit_length m" by simp
    have m0: "0 < m"
    proof (rule ccontr)
      assume "\<not> 0 < m"
      then have "bit_length m = 0" by (simp add: bit_length.simps[of 0])
      with ge pe p0 show False by simp
    qed
    have "2 ^ (bit_length m - 1) \<le> m" by (rule bit_length_lower[OF m0])
    with lt have "(2::nat) ^ (bit_length m - 1) < 2 ^ ?e" by linarith
    then have "bit_length m - 1 < ?e" by (simp add: power_strict_increasing_iff)
    with ge have bl: "bit_length m = ?e" by linarith
    from md bl have "2 ^ (?e - ?p) dvd m" by (simp add: dvd_eq_mod_eq_0)
    then obtain k where k: "m = 2 ^ (?e - ?p) * k" by (auto elim: dvdE)
    have split: "(2::nat) ^ ?e = 2 ^ (?e - ?p) * 2 ^ ?p"
      using pe by (simp add: power_add[symmetric])
    from lt k split have "2 ^ (?e - ?p) * k < 2 ^ (?e - ?p) * (2::nat) ^ ?p" by simp
    then have "k < 2 ^ ?p" by simp
    then have "k + 1 \<le> 2 ^ ?p" by simp
    then have "2 ^ (?e - ?p) * (k + 1) \<le> 2 ^ (?e - ?p) * (2::nat) ^ ?p" by (rule mult_le_mono2)
    with k split show ?thesis by (simp add: algebra_simps)
  qed
qed


lemma round_to_double_below:
  assumes gap: "x + n * 2 ^ (scale_bits - significand_bits) \<le> n * 2 ^ scale_bits"
    and n: "0 < n"
  shows "round_to_double x < n * 2 ^ scale_bits"
proof -
  let ?e = scale_bits and ?p = significand_bits
  define s where "s = bit_length x - ?p"
  define P :: nat where "P = 2 ^ s"
  define q where "q = x div P"
  define r where "r = x mod P"
  have pe: "?p \<le> ?e" by (rule significand_le_scale)
  have p0: "0 < ?p" by (rule significand_pos)
  have Ppos: "0 < P" by (simp add: P_def)
  have x: "x = q * P + r" by (simp add: q_def r_def)
  have rP: "r < P" using Ppos by (simp add: r_def)
  have gpos: "0 < n * (2::nat) ^ (?e - ?p)" using n by simp
  with gap have xlt: "x < n * 2 ^ ?e" by linarith
  have rd: "round_to_double x = (if P < 2 * r \<or> (2 * r = P \<and> odd q) then (q + 1) * P else q * P)"
    by (simp add: round_to_double_def Let_def s_def P_def q_def r_def)
  show ?thesis
  proof (cases "P < 2 * r \<or> (2 * r = P \<and> odd q)")
    case False
    with rd have "round_to_double x = q * P" by simp
    with x xlt show ?thesis by linarith
  next
    case True
    then have half: "P \<le> 2 * r" by auto
    with Ppos have r0: "0 < r" by linarith
    have s0: "s \<noteq> 0"
    proof
      assume "s = 0"
      then have "P = 1" by (simp add: P_def)
      with rP r0 show False by simp
    qed
    then have bl: "bit_length x = s + ?p" by (simp add: s_def)
    have x0: "0 < x" using x r0 by simp
    have "2 ^ (bit_length x - 1) \<le> x" by (rule bit_length_lower[OF x0])
    moreover have "bit_length x - 1 = s + (?p - 1)" using bl p0 by simp
    ultimately have "P * 2 ^ (?p - 1) \<le> x" by (simp add: P_def power_add)
    with xlt have a: "P * 2 ^ (?p - 1) < n * 2 ^ ?e" by linarith
    have "(2::nat) ^ ?e = 2 ^ (?e - ?p) * (2 * 2 ^ (?p - 1))"
    proof -
      have "(2::nat) * 2 ^ (?p - 1) = 2 ^ ?p"
        using p0 power_minus_mult[of ?p "2::nat"] by (simp add: mult.commute)
      then show ?thesis using pe by (simp add: power_add[symmetric])
    qed
    with a have "P * 2 ^ (?p - 1) < (2 * n * 2 ^ (?e - ?p)) * 2 ^ (?p - 1)"
      by (simp add: mult.assoc mult.left_commute)
    then have Pb: "P < 2 * n * 2 ^ (?e - ?p)" by simp
    from True rd have "round_to_double x = (q + 1) * P" by simp
    then have "round_to_double x + r = x + P" using x by (simp add: algebra_simps)
    with half Pb gap show ?thesis by linarith
  qed
qed

lemma random_index_in_range:
  assumes "unit_double m" and "0 < n"
  shows "random_index m n < n"
proof -
  have "m * n + n * 2 ^ (scale_bits - significand_bits) = n * (m + 2 ^ (scale_bits - significand_bits))"
    by (simp add: algebra_simps)
  also have "\<dots> \<le> n * 2 ^ scale_bits"
    using unit_double_gap[OF assms(1)] by (rule mult_le_mono2)
  finally have "round_to_double (m * n) < n * 2 ^ scale_bits"
    using assms(2) by (rule round_to_double_below)
  then show ?thesis
    by (simp add: random_index_def less_mult_imp_div_less)
qed

lemma random_index_empty: "random_index m 0 = 0"
  by (simp add: random_index_def round_to_double_def Let_def)

lemma bit_length_power2: "bit_length (2 ^ k) = Suc k"
proof (induction k)
  case 0
  show ?case by (simp add: bit_length.simps[of "Suc 0"] bit_length.simps[of 0])
next
  case (Suc k)
  then show ?case by (simp add: bit_length.simps[of "2 * 2 ^ k"])
qed

lemma half_is_unit_double: "unit_double (2 ^ 1073)"
  by (simp add: unit_double_def bit_length_power2 scale_bits_def significand_bits_def
      dvd_eq_mod_eq_0[symmetric] le_imp_power_dvd del: power_numeral)

lemma redirect_not_nullish:
  assumes "member_of (member_of (Obj cfg) ''redirect'') ''urls'' = Arr xs"
  shows "\<not> nullish (member_of (Obj cfg) ''redirect'')"
proof
  assume "nullish (member_of (Obj cfg) ''redirect'')"
  then have "member_of (member_of (Obj cfg) ''redirect'') ''urls'' = Undefined"
    by (cases "member_of (Obj cfg) ''redirect''") (simp_all add: member_of_def[of Undefined] member_of_def[of Null])
  with assms show False by simp
qed

lemma getRandomRedirectUrl_array:
  assumes "member_of (member_of (Obj cfg) ''redirect'') ''urls'' = Arr xs"
  shows "getRandomRedirectUrl m cfg =
     Some (Inr (if random_index m (length xs) < length xs then xs ! random_index m (length xs)
                else Undefined))"
  using redirect_not_nullish[OF assms] assms
  by (simp add: getRandomRedirectUrl_def get_def Let_def)

text \<open>
  Claim C9. When \<^verbatim>\<open>config.redirect.urls\<close> is the empty array, \<^verbatim>\<open>getRandomRedirectUrl\<close>
  returns \<^verbatim>\<open>undefined\<close> and throws nothing, whatever \<^verbatim>\<open>Math.random()\<close> gives; when it is
  a non-empty array, the function returns one of its elements, for every double in
  \<open>[0, 1)\<close> that \<^verbatim>\<open>Math.random()\<close> can give.
\<close>

theorem getRandomRedirectUrl_pick:
  assumes "member_of (member_of (Obj cfg) ''redirect'') ''urls'' = Arr xs"
  shows "(xs = [] \<longrightarrow> getRandomRedirectUrl m cfg = Some (Inr Undefined))
       \<and> (xs \<noteq> [] \<and> unit_double m \<longrightarrow> (\<exists>x\<in>set xs. getRandomRedirectUrl m cfg = Some (Inr x)))"
proof (intro conjI impI)
  assume "xs = []"
  then show "getRandomRedirectUrl m cfg = Some (Inr Undefined)"
    using getRandomRedirectUrl_array[OF assms, of m] by simp
next
  assume a: "xs \<noteq> [] \<and> unit_double m"
  then have "random_index m (length xs) < length xs"
    by (intro random_index_in_range) simp_all
  then have "getRandomRedirectUrl m cfg = Some (Inr (xs ! random_index m (length xs)))"
    and "xs ! random_index m (length xs) \<in> set xs"
    using getRandomRedirectUrl_array[OF assms, of m] by simp_all
  then show "\<exists>x\<in>set xs. getRandomRedirectUrl m cfg = Some (Inr x)" by blast
qed

lemma default_urls_read:
  "member_of (member_of (Obj defaultConfig) ''redirect'') ''urls'' = Arr default_urls"
  by (simp add: member_of_def defaultConfig_def default_urls_def)

lemma empty_urls_read:
  "member_of (member_of (Obj empty_urls_config) ''redirect'') ''urls'' = Arr []"
  by (simp add: empty_urls_config_def config_def mergeConfig_def mergeGroup_def object_assign_def
      member_of_def js_or_def js_and_def defaultConfig_def)

theorem getRandomRedirectUrl_pick_witness:
  "unit_double (2 ^ 1073)
   \<and> (\<exists>x\<in>set default_urls. getRandomRedirectUrl (2 ^ 1073) defaultConfig = Some (Inr x))
   \<and> getRandomRedirectUrl (2 ^ 1073) empty_urls_config = Some (Inr Undefined)"
  using getRandomRedirectUrl_pick[OF default_urls_read, of "2 ^ 1073"]
    getRandomRedirectUrl_pick[OF empty_urls_read, of "2 ^ 1073"]
    half_is_unit_double
  by (simp add: default_urls_def del: power_numeral)

lemma bit_length_double: "0 < n \<Longrightarrow> bit_length (2 * n) = Suc (bit_length n)"
  by (simp add: bit_length.simps[of "2 * n"])

lemma bit_length_shift: "0 < n \<Longrightarrow> bit_length (2 ^ k * n) = bit_length n + k"
proof (induction k)
  case 0
  show ?case by simp
next
  case (Suc k)
  have pos: "0 < 2 ^ k * n" using Suc.prems by simp
  have "bit_length (2 ^ Suc k * n) = bit_length (2 * (2 ^ k * n))"
    by (simp only: power_Suc mult.assoc)
  also have "\<dots> = Suc (bit_length (2 ^ k * n))" by (rule bit_length_double[OF pos])
  finally show ?case using Suc by simp
qed

lemma bit_length_9: "bit_length 9 = 4"
  by (simp add: bit_length.simps[of 9] bit_length.simps[of 4] bit_length.simps[of 2]
      bit_length.simps[of "Suc 0"] bit_length.simps[of 0])

text \<open>One half times nine is four and a half: the fifth address is picked.\<close>

lemma random_index_half_of_nine: "random_index (2 ^ 1073) 9 = 4"
proof -
  have bl: "bit_length (2 ^ 1073 * 9) = 1077"
    using bit_length_shift[of 9 1073] by (simp add: bit_length_9 del: power_numeral)
  have e: "(2::nat) ^ 1073 * 9 = 2 ^ 1024 * (9 * 2 ^ 49)"
    by simp
  show ?thesis
    unfolding random_index_def round_to_double_def bl significand_bits_def scale_bits_def Let_def
    by simp
qed

section \<open>Properties of the launch\<close>

lemma member_of_nullish: "nullish v \<Longrightarrow> member_of v k = Undefined"
  by (cases v) (simp_all add: member_of_def)

lemma setupDisguise_ok:
  assumes "\<not> nullish (member_of (Obj cfg) ''disguise'')"
  shows "setupDisguise cfg doc =
     (doc\<lparr>title := to_string (member_of (member_of (Obj cfg) ''disguise'') ''title''),
          head := head doc @
            (if truthy (member_of (member_of (Obj cfg) ''disguise'') ''favicon'')
             then [LinkEl ''icon'' (to_string (member_of (member_of (Obj cfg) ''disguise'') ''favicon''))]
             else [])\<rparr>, None)"
  using assms by (simp add: setupDisguise_def get_def Let_def)

lemma setupDisguise_throws:
  assumes "nullish (member_of (Obj cfg) ''disguise'')"
  shows "setupDisguise cfg doc = (doc, Some TypeError)"
  using assms by (simp add: setupDisguise_def get_def)

lemma addExitProtection_ok:
  assumes "\<not> nullish (member_of (Obj cfg) ''protection'')"
  shows "addExitProtection cfg doc =
     (doc\<lparr>head := head doc @
        (if truthy (member_of (member_of (Obj cfg) ''protection'') ''exitConfirmation'')
         then [ScriptEl (script_text (to_string
                 (member_of (member_of (Obj cfg) ''protection'') ''confirmationMessage'')))]
         else [])\<rparr>, None)"
  using assms by (simp add: addExitProtection_def get_def)

lemma addExitProtection_throws:
  assumes "nullish (member_of (Obj cfg) ''protection'')"
  shows "addExitProtection cfg doc = (doc, Some TypeError)"
  using assms by (simp add: addExitProtection_def get_def)

lemma launch_past_guard:
  assumes "guard_passes w cfg"
  shows "launchInAboutBlank w cfg =
     (case try_block w cfg (location_href w) (start w) of
        (r, None) \<Rightarrow> r
      | (r, Some error) \<Rightarrow>
          (emit [ConsoleError ''Failed to launch about:blank popup:'' error,
                 Alert ''Failed to open stealth mode. The page will load normally.''] r)
            \<lparr>caught := Some error\<rparr>)"
  using assms by (auto simp: guard_passes_def launchInAboutBlank_def Let_def)

lemma try_block_blocked:
  assumes "window_open w = Inr None \<or> window_open w = Inr (Some True)"
  shows "try_block w cfg u r0 =
     (emit [WindowOpen ''about:blank'' ''_blank'', Alert popup_blocked_message] r0, None)"
  using assms by (auto simp: try_block_def Let_def emit_def)


lemma setupIframe_any_doc: "setupIframe doc u = setupIframe blank_document u"
  by (simp add: setupIframe_def)

lemma try_block_built:
  assumes op: "window_open w = Inr (Some False)"
    and d: "\<not> nullish (member_of (Obj cfg) ''disguise'')"
    and p: "\<not> nullish (member_of (Obj cfg) ''protection'')"
    and r: "\<not> nullish (member_of (Obj cfg) ''redirect'')"
  shows "try_block w cfg u r0 =
     (let doc = \<lparr>title = to_string (member_of (member_of (Obj cfg) ''disguise'') ''title''),
                 head =
                   (if truthy (member_of (member_of (Obj cfg) ''disguise'') ''favicon'')
                    then [LinkEl ''icon''
                            (to_string (member_of (member_of (Obj cfg) ''disguise'') ''favicon''))]
                    else [])
                   @ (if truthy (member_of (member_of (Obj cfg) ''protection'') ''exitConfirmation'')
                      then [ScriptEl (script_text (to_string
                              (member_of (member_of (Obj cfg) ''protection'') ''confirmationMessage'')))]
                      else []),
                 body_style = [(''margin'', ''0''), (''padding'', ''0'')],
                 body = [setupIframe blank_document u]\<rparr>
      in if truthy (member_of (member_of (Obj cfg) ''redirect'') ''enabled'')
         then (r0\<lparr>events := events r0 @ [WindowOpen ''about:blank'' ''_blank'', WindowClose, SetTimeout 100],
                  popup := Some doc, timers := timers r0 @ [100],
                  tab_closed := close_honoured w\<rparr>, None)
         else (r0\<lparr>events := events r0 @ [WindowOpen ''about:blank'' ''_blank''],
                  popup := Some doc\<rparr>, None))"
  using r
  by (simp add: try_block_def op setupDisguise_ok[OF d] addExitProtection_ok[OF p] get_def
      Let_def emit_def blank_document_def setupIframe_def)

lemma try_block_throws:
  assumes op: "window_open w = Inr (Some False)"
    and n: "nullish (member_of (Obj cfg) ''disguise'')
            \<or> nullish (member_of (Obj cfg) ''protection'')
            \<or> nullish (member_of (Obj cfg) ''redirect'')"
  shows "snd (try_block w cfg u r0) = Some TypeError"
proof (cases "nullish (member_of (Obj cfg) ''disguise'')")
  case True
  then show ?thesis
    by (simp add: try_block_def op setupDisguise_throws Let_def)
next
  case d: False
  show ?thesis
  proof (cases "nullish (member_of (Obj cfg) ''protection'')")
    case True
    then show ?thesis
      by (simp add: try_block_def op setupDisguise_ok[OF d] addExitProtection_throws Let_def)
  next
    case p: False
    with d n have "nullish (member_of (Obj cfg) ''redirect'')" by simp
    then show ?thesis
      by (simp add: try_block_def op setupDisguise_ok[OF d] addExitProtection_ok[OF p] get_def
          Let_def)
  qed
qed

lemma caught_launch_throws:
  assumes g: "guard_passes w cfg" and t: "snd (try_block w cfg (location_href w) (start w)) = Some e"
  shows "caught (launchInAboutBlank w cfg) = Some e"
proof -
  obtain r where "try_block w cfg (location_href w) (start w) = (r, Some e)"
    using t by (cases "try_block w cfg (location_href w) (start w)") auto
  then show ?thesis by (simp add: launch_past_guard[OF g] emit_def)
qed

lemma no_exception_groups:
  assumes g: "guard_passes w cfg" and op: "window_open w = Inr (Some False)"
    and c: "caught (launchInAboutBlank w cfg) = None"
  shows "\<not> nullish (member_of (Obj cfg) ''disguise'')
       \<and> \<not> nullish (member_of (Obj cfg) ''protection'')
       \<and> \<not> nullish (member_of (Obj cfg) ''redirect'')"
proof (rule ccontr)
  assume "\<not> ?thesis"
  then have "nullish (member_of (Obj cfg) ''disguise'')
            \<or> nullish (member_of (Obj cfg) ''protection'')
            \<or> nullish (member_of (Obj cfg) ''redirect'')" by blast
  from caught_launch_throws[OF g try_block_throws[OF op this]] c show False by simp
qed

lemma launch_built:
  assumes g: "guard_passes w cfg" and op: "window_open w = Inr (Some False)"
    and c: "caught (launchInAboutBlank w cfg) = None"
  shows "launchInAboutBlank w cfg =
     (let doc = \<lparr>title = to_string (member_of (member_of (Obj cfg) ''disguise'') ''title''),
                 head =
                   (if truthy (member_of (member_of (Obj cfg) ''disguise'') ''favicon'')
                    then [LinkEl ''icon''
                            (to_string (member_of (member_of (Obj cfg) ''disguise'') ''favicon''))]
                    else [])
                   @ (if truthy (member_of (member_of (Obj cfg) ''protection'') ''exitConfirmation'')
                      then [ScriptEl (script_text (to_string
                              (member_of (member_of (Obj cfg) ''protection'') ''confirmationMessage'')))]
                      else []),
                 body_style = [(''margin'', ''0''), (''padding'', ''0'')],
                 body = [setupIframe blank_document (location_href w)]\<rparr>
      in if truthy (member_of (member_of (Obj cfg) ''redirect'') ''enabled'')
         then (start w)\<lparr>events := [WindowOpen ''about:blank'' ''_blank'', WindowClose, SetTimeout 100],
                  popup := Some doc, timers := [100], tab_closed := close_honoured w\<rparr>
         else (start w)\<lparr>events := [WindowOpen ''about:blank'' ''_blank''], popup := Some doc\<rparr>)"
proof -
  from no_exception_groups[OF g op c]
  have d: "\<not> nullish (member_of (Obj cfg) ''disguise'')"
    and p: "\<not> nullish (member_of (Obj cfg) ''protection'')"
    and r: "\<not> nullish (member_of (Obj cfg) ''redirect'')" by simp_all
  show ?thesis
    unfolding launch_past_guard[OF g] try_block_built[OF op d p r]
    by (simp add: Let_def start_def)
qed

lemma popup_fallback: "popup (fallback_callback w r) = popup r"
  by (simp add: fallback_callback_def location_replace_def emit_def Let_def
      split: replace_result.splits)

lemma popup_settled: "popup (launch_settled w cfg) = popup (launchInAboutBlank w cfg)"
  by (simp add: launch_settled_def Let_def popup_fallback split: list.splits)







text \<open>A single-spaced title reads back as it was written.\<close>

lemma single_spaced_hd: "single_spaced (c # cs) \<Longrightarrow> \<not> ascii_whitespace c"
  by (cases cs) simp_all

lemma space_is_whitespace: "ascii_whitespace (CHR 0x20)"
  by (simp add: ascii_whitespace_def)

lemma squeeze_single_spaced: "single_spaced t \<Longrightarrow> squeeze False t = t"
proof (induction t rule: single_spaced.induct)
  case 1
  show ?case by simp
next
  case (2 c)
  then show ?case by simp
next
  case (3 c d cs)
  then have c: "\<not> ascii_whitespace c" by simp
  show ?case
  proof (cases "d = CHR 0x20")
    case True
    with 3 have ne: "cs \<noteq> []" and ss: "single_spaced cs" by simp_all
    from ne obtain e es where cs: "cs = e # es" by (cases cs) auto
    from ss cs have e: "\<not> ascii_whitespace e" by (simp add: single_spaced_hd)
    from 3 True ne ss have ih: "squeeze False cs = cs" by simp
    have "squeeze True cs = CHR 0x20 # squeeze False cs"
      using e by (simp add: cs)
    with ih c True show ?thesis by (simp add: space_is_whitespace)
  next
    case False
    with 3 have ss: "single_spaced (d # cs)" by simp
    with 3 False have ih: "squeeze False (d # cs) = d # cs" by simp
    from c have "squeeze False (c # d # cs) = c # squeeze False (d # cs)" by simp
    with ih show ?thesis by simp
  qed
qed

lemma single_spaced_fixed: "single_spaced t \<Longrightarrow> strip_and_collapse t = t"
proof -
  assume s: "single_spaced t"
  have "dropWhile ascii_whitespace t = t"
  proof (cases t)
    case Nil
    then show ?thesis by simp
  next
    case (Cons c cs)
    with s have "\<not> ascii_whitespace c" by (simp add: single_spaced_hd)
    with Cons show ?thesis by simp
  qed
  with s show ?thesis by (simp add: strip_and_collapse_def squeeze_single_spaced)
qed

text \<open>
  Claim C1, as amended. When the guard lets the launcher through, \<^verbatim>\<open>window.open\<close>
  returns an open handle and no exception is thrown, the text of the popup's title element
  is the configured \<^verbatim>\<open>disguise.title\<close>, and the popup's \<^verbatim>\<open>document.title\<close> reads as that
  title with its ASCII whitespace stripped at both ends and collapsed inside, so as the
  configured title itself when that is single-spaced; the body holds exactly one node, the
  frame, whose source is the address the original tab had when \<^verbatim>\<open>launch()\<close> was called
  (whatever the tab is navigated to afterwards); and the head holds exactly one link
  element, the favicon, when \<^verbatim>\<open>disguise.favicon\<close> is truthy, and none otherwise.
\<close>

theorem popup_build:
  assumes g: "guard_passes w cfg"
    and op: "window_open w = Inr (Some False)"
    and c: "caught (launchInAboutBlank w cfg) = None"
    and t: "member_of (member_of (Obj cfg) ''disguise'') ''title'' = Str t"
  shows "\<exists>doc. popup (launch_settled w cfg) = Some doc
           \<and> title doc = t
           \<and> document_title doc = strip_and_collapse t
           \<and> (single_spaced t \<longrightarrow> document_title doc = t)
           \<and> body doc = [setupIframe blank_document (location_href w)]
           \<and> map iframe_src (body doc) = [Some (location_href w)]
           \<and> filter is_link (head doc) =
               (if truthy (member_of (member_of (Obj cfg) ''disguise'') ''favicon'')
                then [LinkEl ''icon'' (to_string (member_of (member_of (Obj cfg) ''disguise'') ''favicon''))]
                else [])"
  unfolding popup_settled launch_built[OF g op c]
  by (simp add: Let_def t setupIframe_def document_title_def single_spaced_fixed)

lemma lesson_guard: "guard_passes lesson_tab defaultConfig"
  by (simp add: guard_passes_def member_of_def defaultConfig_def isInFrame_def isFirefox_def
      lesson_tab_def)

lemma lesson_open: "window_open lesson_tab = Inr (Some False)"
  by (simp add: lesson_tab_def)

lemma default_groups:
  "\<not> nullish (member_of (Obj defaultConfig) ''disguise'')"
  "\<not> nullish (member_of (Obj defaultConfig) ''protection'')"
  "\<not> nullish (member_of (Obj defaultConfig) ''redirect'')"
  by (simp_all add: member_of_def defaultConfig_def)

lemma lesson_no_exception: "caught (launchInAboutBlank lesson_tab defaultConfig) = None"
  unfolding launch_past_guard[OF lesson_guard]
    try_block_built[OF lesson_open default_groups]
  by (simp add: Let_def start_def)

lemma default_title:
  "member_of (member_of (Obj defaultConfig) ''disguise'') ''title'' = Str ''My Drive - Google Drive''"
  by (simp add: member_of_def defaultConfig_def)

lemma default_title_single_spaced: "single_spaced ''My Drive - Google Drive''"
  by (simp add: ascii_whitespace_def)

lemma default_favicon_truthy:
  "truthy (member_of (member_of (Obj defaultConfig) ''disguise'') ''favicon'')"
  by (simp add: member_of_def defaultConfig_def)


lemma no_favicon_reads:
  "member_of (Obj no_favicon_config) ''enabled'' = Bool True"
  "member_of (Obj no_favicon_config) ''skipIframes'' = Bool True"
  "member_of (Obj no_favicon_config) ''skipFirefox'' = Bool True"
  "member_of (Obj no_favicon_config) ''disguise'' = Obj (fmap_of_list [(''title'', Str ''Notes'')])"
  "\<not> nullish (member_of (Obj no_favicon_config) ''protection'')"
  "\<not> nullish (member_of (Obj no_favicon_config) ''redirect'')"
  by (simp_all add: no_favicon_config_def title_only_def setConfig_def config_def mergeConfig_def
      mergeGroup_def object_assign_def member_of_def js_or_def js_and_def defaultConfig_def)

lemma no_favicon_guard: "guard_passes lesson_tab no_favicon_config"
  by (simp add: guard_passes_def no_favicon_reads isInFrame_def isFirefox_def lesson_tab_def)

lemma no_favicon_no_exception: "caught (launchInAboutBlank lesson_tab no_favicon_config) = None"
proof -
  have d: "\<not> nullish (member_of (Obj no_favicon_config) ''disguise'')"
    by (simp add: no_favicon_reads)
  show ?thesis
    unfolding launch_past_guard[OF no_favicon_guard]
      try_block_built[OF lesson_open d no_favicon_reads(5) no_favicon_reads(6)]
    by (simp add: Let_def start_def)
qed

lemma no_favicon_title:
  "member_of (member_of (Obj no_favicon_config) ''disguise'') ''title'' = Str ''Notes''"
  "\<not> truthy (member_of (member_of (Obj no_favicon_config) ''disguise'') ''favicon'')"
  unfolding no_favicon_reads by (simp_all add: member_of_def)

theorem popup_build_witness:
  "guard_passes lesson_tab defaultConfig
   \<and> window_open lesson_tab = Inr (Some False)
   \<and> caught (launchInAboutBlank lesson_tab defaultConfig) = None
   \<and> single_spaced ''My Drive - Google Drive''
   \<and> (\<exists>doc. popup (launch_settled lesson_tab defaultConfig) = Some doc
         \<and> document_title doc = ''My Drive - Google Drive''
         \<and> map iframe_src (body doc) = [Some ''https://example.edu/lesson'']
         \<and> length (filter is_link (head doc)) = 1)
   \<and> (\<exists>doc. popup (launch_settled lesson_tab no_favicon_config) = Some doc
         \<and> title doc = ''Notes''
         \<and> map iframe_src (body doc) = [Some ''https://example.edu/lesson'']
         \<and> length (filter is_link (head doc)) = 0)"
proof -
  have h: "location_href lesson_tab = ''https://example.edu/lesson''"
    by (simp add: lesson_tab_def)
  from popup_build[OF lesson_guard lesson_open lesson_no_exception default_title]
  have a: "\<exists>doc. popup (launch_settled lesson_tab defaultConfig) = Some doc
         \<and> document_title doc = ''My Drive - Google Drive''
         \<and> map iframe_src (body doc) = [Some ''https://example.edu/lesson'']
         \<and> length (filter is_link (head doc)) = 1"
    unfolding h using default_title_single_spaced by (auto simp: default_favicon_truthy)
  from popup_build[OF no_favicon_guard lesson_open no_favicon_no_exception no_favicon_title(1)]
  have b: "\<exists>doc. popup (launch_settled lesson_tab no_favicon_config) = Some doc
         \<and> title doc = ''Notes''
         \<and> map iframe_src (body doc) = [Some ''https://example.edu/lesson'']
         \<and> length (filter is_link (head doc)) = 0"
    unfolding h by (auto simp: no_favicon_title(2))
  from lesson_guard lesson_open lesson_no_exception default_title_single_spaced a b
  show ?thesis by blast
qed

text \<open>
  The claim as first stated, that the popup's title equals \<^verbatim>\<open>disguise.title\<close> for every
  non-empty title, fails for a title with whitespace around or doubled inside: configured
  as \<^verbatim>\<open>" My  Drive "\<close>, the popup's \<^verbatim>\<open>document.title\<close> reads \<^verbatim>\<open>"My Drive"\<close>.
\<close>

lemma spaced_title_reads:
  "member_of (Obj spaced_title_config) ''enabled'' = Bool True"
  "member_of (Obj spaced_title_config) ''skipIframes'' = Bool True"
  "member_of (Obj spaced_title_config) ''skipFirefox'' = Bool True"
  "\<not> nullish (member_of (Obj spaced_title_config) ''disguise'')"
  "\<not> nullish (member_of (Obj spaced_title_config) ''protection'')"
  "\<not> nullish (member_of (Obj spaced_title_config) ''redirect'')"
  "member_of (member_of (Obj spaced_title_config) ''disguise'') ''title'' = Str '' My  Drive ''"
  by (simp_all add: spaced_title_config_def config_def mergeConfig_def
      mergeGroup_def object_assign_def member_of_def js_or_def js_and_def defaultConfig_def)

lemma spaced_title_guard: "guard_passes lesson_tab spaced_title_config"
  by (simp add: guard_passes_def spaced_title_reads isInFrame_def isFirefox_def lesson_tab_def)

lemma spaced_title_no_exception:
  "caught (launchInAboutBlank lesson_tab spaced_title_config) = None"
  unfolding launch_past_guard[OF spaced_title_guard]
    try_block_built[OF lesson_open spaced_title_reads(4) spaced_title_reads(5) spaced_title_reads(6)]
  by (simp add: Let_def start_def)

lemma spaced_title_collapsed: "strip_and_collapse '' My  Drive '' = ''My Drive''"
  by (simp add: strip_and_collapse_def ascii_whitespace_def)

theorem popup_build_counterexample:
  "guard_passes lesson_tab spaced_title_config
   \<and> window_open lesson_tab = Inr (Some False)
   \<and> caught (launchInAboutBlank lesson_tab spaced_title_config) = None
   \<and> member_of (member_of (Obj spaced_title_config) ''disguise'') ''title'' = Str '' My  Drive ''
   \<and> map_option document_title (popup (launch_settled lesson_tab spaced_title_config))
       = Some ''My Drive''
   \<and> map_option document_title (popup (launch_settled lesson_tab spaced_title_config))
       \<noteq> Some '' My  Drive ''"
proof -
  have p: "map_option document_title (popup (launch_settled lesson_tab spaced_title_config))
       = Some ''My Drive''"
    unfolding popup_settled launch_built[OF spaced_title_guard lesson_open spaced_title_no_exception]
    by (simp add: Let_def document_title_def spaced_title_reads(7) spaced_title_collapsed)
  have "map_option document_title (popup (launch_settled lesson_tab spaced_title_config))
       \<noteq> Some '' My  Drive ''"
    unfolding p by simp
  with spaced_title_guard lesson_open spaced_title_no_exception spaced_title_reads(7) p
  show ?thesis by blast
qed




text \<open>
  When even \<^verbatim>\<open>about:blank\<close> is refused, the three calls are made, the tab stays where it
  is and the third exception leaves the callback.
\<close>

lemma fallback_all_refused:
  assumes "\<not> tab_closed r" and "replace_outcome w ''chrome://newtab/'' = Throws"
    and "replace_outcome w ''about:newtab'' = Throws" and "replace_outcome w ''about:blank'' = Throws"
  shows "uncaught (fallback_callback w r) = Some (Thrown ''about:blank'')"
    and "tab_href (fallback_callback w r) = tab_href r"
  using assms
  by (simp_all add: fallback_callback_def location_replace_def emit_def Let_def)








text \<open>
  Claim C5. When the guard lets the launcher through and \<^verbatim>\<open>window.open\<close> returns
  \<^verbatim>\<open>null\<close> or a handle that reports closed, the whole effect of \<^verbatim>\<open>launch()\<close> is the call
  of \<^verbatim>\<open>window.open\<close> and one alert: no document is touched (no title, link, frame or
  script), \<^verbatim>\<open>window.close()\<close> and \<^verbatim>\<open>location.replace\<close> are never called, no timer is
  set, and the original tab keeps its address and stays open.
\<close>

theorem popup_blocked:
  assumes g: "guard_passes w cfg"
    and b: "window_open w = Inr None \<or> window_open w = Inr (Some True)"
  shows "launch_settled w cfg =
           (start w)\<lparr>events := [WindowOpen ''about:blank'' ''_blank'', Alert popup_blocked_message]\<rparr>
       \<and> popup (launch_settled w cfg) = None
       \<and> WindowClose \<notin> set (events (launch_settled w cfg))
       \<and> replace_calls (events (launch_settled w cfg)) = []
       \<and> timers (launch_settled w cfg) = []
       \<and> tab_href (launch_settled w cfg) = location_href w
       \<and> \<not> tab_closed (launch_settled w cfg)"
proof -
  have l: "launchInAboutBlank w cfg =
      (start w)\<lparr>events := [WindowOpen ''about:blank'' ''_blank'', Alert popup_blocked_message]\<rparr>"
    unfolding launch_past_guard[OF g] try_block_blocked[OF b]
    by (simp add: emit_def start_def)
  have s: "launch_settled w cfg =
      (start w)\<lparr>events := [WindowOpen ''about:blank'' ''_blank'', Alert popup_blocked_message]\<rparr>"
    unfolding launch_settled_def l by (simp add: start_def)
  show ?thesis unfolding s by (simp add: start_def)
qed

theorem popup_blocked_witness:
  "guard_passes (lesson_tab\<lparr>window_open := Inr None\<rparr>) defaultConfig
   \<and> events (launch_settled (lesson_tab\<lparr>window_open := Inr None\<rparr>) defaultConfig)
       = [WindowOpen ''about:blank'' ''_blank'', Alert popup_blocked_message]
   \<and> popup (launch_settled (lesson_tab\<lparr>window_open := Inr None\<rparr>) defaultConfig) = None
   \<and> events (launch_settled (lesson_tab\<lparr>window_open := Inr (Some True)\<rparr>) defaultConfig)
       = [WindowOpen ''about:blank'' ''_blank'', Alert popup_blocked_message]
   \<and> tab_href (launch_settled (lesson_tab\<lparr>window_open := Inr (Some True)\<rparr>) defaultConfig)
       = ''https://example.edu/lesson''"
proof -
  have g: "guard_passes (lesson_tab\<lparr>window_open := x\<rparr>) defaultConfig" for x
    using lesson_guard by (simp add: guard_passes_def isInFrame_def isFirefox_def)
  have b1: "window_open (lesson_tab\<lparr>window_open := Inr None\<rparr>) = Inr None
      \<or> window_open (lesson_tab\<lparr>window_open := Inr None\<rparr>) = Inr (Some True)" by simp
  have b2: "window_open (lesson_tab\<lparr>window_open := Inr (Some True)\<rparr>) = Inr None
      \<or> window_open (lesson_tab\<lparr>window_open := Inr (Some True)\<rparr>) = Inr (Some True)" by simp
  from popup_blocked[OF g b1] popup_blocked[OF g b2] g[of "Inr None"]
  show ?thesis by (simp add: start_def lesson_tab_def)
qed

text \<open>
  Claim C8. When \<^verbatim>\<open>config.enabled\<close> is falsy, the whole effect of \<^verbatim>\<open>launch()\<close> is the one
  log line that the launcher is disabled: \<^verbatim>\<open>window.open\<close> is not called, no document is
  touched, no timer is set, the original tab is neither closed nor navigated, and no other
  line is logged, whatever the browser and the rest of the configuration are.
\<close>

theorem disabled_launch:
  assumes "\<not> truthy (member_of (Obj cfg) ''enabled'')"
  shows "launchInAboutBlank w cfg =
           (start w)\<lparr>events := [ConsoleLog ''About:blank launcher is disabled'']\<rparr>
       \<and> launch_settled w cfg = launchInAboutBlank w cfg
       \<and> popup (launch_settled w cfg) = None
       \<and> timers (launch_settled w cfg) = []
       \<and> tab_href (launch_settled w cfg) = location_href w
       \<and> \<not> tab_closed (launch_settled w cfg)"
proof -
  have l: "launchInAboutBlank w cfg =
      (start w)\<lparr>events := [ConsoleLog ''About:blank launcher is disabled'']\<rparr>"
    using assms by (simp add: launchInAboutBlank_def emit_def start_def)
  have s: "launch_settled w cfg = launchInAboutBlank w cfg"
    unfolding launch_settled_def l by (simp add: start_def)
  show ?thesis unfolding s unfolding l by (simp add: start_def)
qed

theorem disabled_launch_witness:
  "\<not> truthy (member_of (Obj (disable defaultConfig)) ''enabled'')
   \<and> events (launch_settled lesson_tab (disable defaultConfig))
       = [ConsoleLog ''About:blank launcher is disabled'']
   \<and> popup (launch_settled lesson_tab (disable defaultConfig)) = None
   \<and> tab_href (launch_settled lesson_tab (disable defaultConfig)) = ''https://example.edu/lesson''"
proof -
  have d: "\<not> truthy (member_of (Obj (disable defaultConfig)) ''enabled'')"
    by (simp add: disable_def member_of_def)
  from disabled_launch[OF d, of lesson_tab] d
  show ?thesis by (simp add: start_def lesson_tab_def)
qed

lemma str_includes_iff: "str_includes h n = (\<exists>p s. h = p @ n @ s)"
proof (induction h)
  case Nil
  show ?case by simp
next
  case (Cons c cs)
  show ?case
  proof
    assume "str_includes (c # cs) n"
    then consider "take (length n) (c # cs) = n" | "str_includes cs n" by auto
    then show "\<exists>p s. c # cs = p @ n @ s"
    proof cases
      case 1
      have "c # cs = [] @ take (length n) (c # cs) @ drop (length n) (c # cs)"
        by (simp only: append_Nil append_take_drop_id)
      with 1 show ?thesis by metis
    next
      case 2
      with Cons obtain p s where "cs = p @ n @ s" by blast
      then have "c # cs = (c # p) @ n @ s" by simp
      then show ?thesis by blast
    qed
  next
    assume "\<exists>p s. c # cs = p @ n @ s"
    then obtain p s where ps: "c # cs = p @ n @ s" by blast
    show "str_includes (c # cs) n"
    proof (cases p)
      case Nil
      with ps have "take (length n) (c # cs) = n" by simp
      then show ?thesis by simp
    next
      case (Cons a p')
      with ps have "cs = p' @ n @ s" by simp
      with Cons.IH have "str_includes cs n" by blast
      then show ?thesis by simp
    qed
  qed
qed

lemma start_probe: "start (w\<lparr>top_probe := x\<rparr>) = start w"
  by (simp add: start_def)

lemma isFirefox_probe: "isFirefox (w\<lparr>top_probe := x\<rparr>) = isFirefox w"
  by (simp add: isFirefox_def)

lemma try_block_probe: "try_block (w\<lparr>top_probe := x\<rparr>) cfg u r = try_block w cfg u r"
  by (simp add: try_block_def Let_def split: sum.splits option.splits prod.splits)

lemma fallback_probe: "fallback_callback (w\<lparr>top_probe := x\<rparr>) r = fallback_callback w r"
  by (simp add: fallback_callback_def location_replace_def Let_def split: replace_result.splits)

lemma launch_nested:
  assumes "isInFrame v" and "start v = start w" and "isFirefox v = isFirefox w"
    and "location_href v = location_href w"
    and "\<And>u r. try_block v cfg u r = try_block w cfg u r"
  shows "launchInAboutBlank v cfg =
     (if \<not> truthy (member_of (Obj cfg) ''enabled'')
      then emit [ConsoleLog ''About:blank launcher is disabled''] (start w)
      else if truthy (member_of (Obj cfg) ''skipIframes'')
      then emit [ConsoleLog ''Skipping about:blank launch - already in iframe''] (start w)
      else if truthy (member_of (Obj cfg) ''skipFirefox'') \<and> isFirefox w
      then emit [ConsoleLog ''Skipping about:blank launch - Firefox detected''] (start w)
      else
        (case try_block w cfg (location_href w) (start w) of
           (r, None) \<Rightarrow> r
         | (r, Some error) \<Rightarrow>
             (emit [ConsoleError ''Failed to launch about:blank popup:'' error,
                    Alert ''Failed to open stealth mode. The page will load normally.''] r)
               \<lparr>caught := Some error\<rparr>))"
  using assms by (simp add: launchInAboutBlank_def Let_def)

text \<open>
  Claim C6. A browser in which evaluating \<^verbatim>\<open>window !== window.top\<close> throws is treated as
  one in which it gives \<^verbatim>\<open>true\<close>: \<^verbatim>\<open>isInFrame\<close> answers alike, \<^verbatim>\<open>launch()\<close> has the
  same effects in both and \<^verbatim>\<open>isSupported()\<close> the same answer, for every configuration. With the launcher enabled and
  \<^verbatim>\<open>skipIframes\<close> truthy, the whole effect is the one log line of the skip.
\<close>

theorem frame_check_exception:
  "isInFrame (w\<lparr>top_probe := Inl e\<rparr>) = isInFrame (w\<lparr>top_probe := Inr True\<rparr>)
   \<and> launchInAboutBlank (w\<lparr>top_probe := Inl e\<rparr>) cfg
       = launchInAboutBlank (w\<lparr>top_probe := Inr True\<rparr>) cfg
   \<and> launch_settled (w\<lparr>top_probe := Inl e\<rparr>) cfg
       = launch_settled (w\<lparr>top_probe := Inr True\<rparr>) cfg
   \<and> isSupported (w\<lparr>top_probe := Inl e\<rparr>) cfg = isSupported (w\<lparr>top_probe := Inr True\<rparr>) cfg
   \<and> (truthy (member_of (Obj cfg) ''enabled'') \<and> truthy (member_of (Obj cfg) ''skipIframes'') \<longrightarrow>
        launch_settled (w\<lparr>top_probe := Inl e\<rparr>) cfg =
          (start w)\<lparr>events := [ConsoleLog ''Skipping about:blank launch - already in iframe'']\<rparr>)"
proof -
  have a: "isInFrame (w\<lparr>top_probe := Inl e\<rparr>)" and b: "isInFrame (w\<lparr>top_probe := Inr True\<rparr>)"
    by (simp_all add: isInFrame_def)
  have la: "launchInAboutBlank (w\<lparr>top_probe := Inl e\<rparr>) cfg
      = launchInAboutBlank (w\<lparr>top_probe := Inr True\<rparr>) cfg"
    by (simp add: launch_nested[OF a start_probe isFirefox_probe _ try_block_probe]
        launch_nested[OF b start_probe isFirefox_probe _ try_block_probe])
  have ls: "launch_settled (w\<lparr>top_probe := Inl e\<rparr>) cfg
      = launch_settled (w\<lparr>top_probe := Inr True\<rparr>) cfg"
    by (simp add: launch_settled_def la fallback_probe Let_def split: list.splits)
  have sk: "launch_settled (w\<lparr>top_probe := Inl e\<rparr>) cfg =
      (start w)\<lparr>events := [ConsoleLog ''Skipping about:blank launch - already in iframe'']\<rparr>"
    if "truthy (member_of (Obj cfg) ''enabled'')" "truthy (member_of (Obj cfg) ''skipIframes'')"
    using that
    by (simp add: launch_settled_def launch_nested[OF a start_probe isFirefox_probe _ try_block_probe]
        emit_def start_def)
  have su: "isSupported (w\<lparr>top_probe := Inl e\<rparr>) cfg = isSupported (w\<lparr>top_probe := Inr True\<rparr>) cfg"
    by (simp add: isSupported_def a b)
  from a b la ls su sk show ?thesis by simp
qed

theorem frame_check_exception_witness:
  "truthy (member_of (Obj defaultConfig) ''enabled'')
   \<and> truthy (member_of (Obj defaultConfig) ''skipIframes'')
   \<and> events (launch_settled (lesson_tab\<lparr>top_probe := Inl (Thrown ''SecurityError'')\<rparr>) defaultConfig)
       = [ConsoleLog ''Skipping about:blank launch - already in iframe'']
   \<and> launch_settled (lesson_tab\<lparr>top_probe := Inr True\<rparr>) defaultConfig
       = launch_settled (lesson_tab\<lparr>top_probe := Inl (Thrown ''SecurityError'')\<rparr>) defaultConfig
   \<and> popup (launch_settled (lesson_tab\<lparr>top_probe := Inr True\<rparr>) defaultConfig) = None"
proof -
  have t: "truthy (member_of (Obj defaultConfig) ''enabled'')"
    "truthy (member_of (Obj defaultConfig) ''skipIframes'')"
    by (simp_all add: member_of_def defaultConfig_def)
  note f = frame_check_exception[where w = lesson_tab and e = "Thrown ''SecurityError''"
      and cfg = defaultConfig]
  from f have eq: "launch_settled (lesson_tab\<lparr>top_probe := Inl (Thrown ''SecurityError'')\<rparr>) defaultConfig
      = launch_settled (lesson_tab\<lparr>top_probe := Inr True\<rparr>) defaultConfig"
    by blast
  from f t have sk: "launch_settled (lesson_tab\<lparr>top_probe := Inl (Thrown ''SecurityError'')\<rparr>) defaultConfig
      = (start lesson_tab)\<lparr>events := [ConsoleLog ''Skipping about:blank launch - already in iframe'']\<rparr>"
    by blast
  have ev: "events (launch_settled (lesson_tab\<lparr>top_probe := Inl (Thrown ''SecurityError'')\<rparr>) defaultConfig)
      = [ConsoleLog ''Skipping about:blank launch - already in iframe'']"
    unfolding sk by simp
  have pp: "popup (launch_settled (lesson_tab\<lparr>top_probe := Inr True\<rparr>) defaultConfig) = None"
    unfolding eq[symmetric] sk by (simp add: start_def)
  from t ev eq[symmetric] pp show ?thesis by blast
qed

lemma isSupported_iff:
  "isSupported w cfg =
     (\<not> isInFrame w \<and> \<not> (truthy (member_of (Obj cfg) ''skipFirefox'') \<and> isFirefox w))"
  by (auto simp: isSupported_def)

lemma isSupported_agrees:
  "truthy (member_of (Obj cfg) ''skipIframes'') \<Longrightarrow> isSupported w cfg = environment_permits w cfg"
  by (auto simp: isSupported_def environment_permits_def)

lemma isSupported_stricter: "isSupported w cfg \<Longrightarrow> environment_permits w cfg"
  by (auto simp: isSupported_def environment_permits_def)

lemma guard_passes_iff:
  "guard_passes w cfg = (truthy (member_of (Obj cfg) ''enabled'') \<and> environment_permits w cfg)"
  by (simp add: guard_passes_def environment_permits_def)

lemma frames_allowed_reads:
  "member_of (Obj frames_allowed_config) ''enabled'' = Bool True"
  "member_of (Obj frames_allowed_config) ''skipIframes'' = Bool False"
  "member_of (Obj frames_allowed_config) ''skipFirefox'' = Bool True"
  "\<not> nullish (member_of (Obj frames_allowed_config) ''disguise'')"
  "\<not> nullish (member_of (Obj frames_allowed_config) ''protection'')"
  "\<not> nullish (member_of (Obj frames_allowed_config) ''redirect'')"
  "truthy (member_of (member_of (Obj frames_allowed_config) ''redirect'') ''enabled'')"
  by (simp_all add: frames_allowed_config_def setConfig_def config_def mergeConfig_def
      mergeGroup_def object_assign_def member_of_def js_or_def js_and_def defaultConfig_def)

lemma nested_tab_fields:
  "isInFrame (lesson_tab\<lparr>top_probe := Inr True\<rparr>)"
  "\<not> isFirefox (lesson_tab\<lparr>top_probe := Inr True\<rparr>)"
  "window_open (lesson_tab\<lparr>top_probe := Inr True\<rparr>) = Inr (Some False)"
  by (simp_all add: isInFrame_def isFirefox_def lesson_tab_def)

text \<open>
  Claim C2, at a nested page of a Chromium browser with \<^verbatim>\<open>skipIframes\<close> set to
  \<^verbatim>\<open>false\<close>: both checks of the guard permit the launch and \<^verbatim>\<open>launch()\<close> goes on to open
  the popup, close the tab and set the timer, yet \<^verbatim>\<open>isSupported()\<close> answers \<^verbatim>\<open>false\<close>.
  \<^verbatim>\<open>isSupported\<close> reads \<^verbatim>\<open>skipFirefox\<close> as the guard does, but never reads
  \<^verbatim>\<open>skipIframes\<close>.
\<close>

theorem isSupported_ignores_skipIframes:
  "\<not> isSupported (lesson_tab\<lparr>top_probe := Inr True\<rparr>) frames_allowed_config
   \<and> environment_permits (lesson_tab\<lparr>top_probe := Inr True\<rparr>) frames_allowed_config
   \<and> guard_passes (lesson_tab\<lparr>top_probe := Inr True\<rparr>) frames_allowed_config
   \<and> events (launchInAboutBlank (lesson_tab\<lparr>top_probe := Inr True\<rparr>) frames_allowed_config)
       = [WindowOpen ''about:blank'' ''_blank'', WindowClose, SetTimeout 100]"
proof -
  let ?w = "lesson_tab\<lparr>top_probe := Inr True\<rparr>"
  have s: "\<not> isSupported ?w frames_allowed_config"
    by (simp add: isSupported_def nested_tab_fields)
  have e: "environment_permits ?w frames_allowed_config"
    by (simp add: environment_permits_def frames_allowed_reads nested_tab_fields)
  have g: "guard_passes ?w frames_allowed_config"
    by (simp add: guard_passes_def frames_allowed_reads nested_tab_fields)
  have l: "events (launchInAboutBlank ?w frames_allowed_config)
       = [WindowOpen ''about:blank'' ''_blank'', WindowClose, SetTimeout 100]"
    unfolding launch_past_guard[OF g]
      try_block_built[OF nested_tab_fields(3) frames_allowed_reads(4,5,6)]
    by (simp add: Let_def frames_allowed_reads(7) start_def)
  from s e g l show ?thesis by blast
qed

theorem isSupported_ignores_skipIframes_witness:
  "isSupported (lesson_tab\<lparr>top_probe := Inr True\<rparr>) frames_allowed_config
     \<noteq> environment_permits (lesson_tab\<lparr>top_probe := Inr True\<rparr>) frames_allowed_config
   \<and> WindowOpen ''about:blank'' ''_blank''
       \<in> set (events (launchInAboutBlank (lesson_tab\<lparr>top_probe := Inr True\<rparr>) frames_allowed_config))"
  using isSupported_ignores_skipIframes by simp

end
